theory Spec2Isabelle
  imports
    Main
    "HOL-Library.Sublist"
    "HOL-Library.AList"
    "HOL-Library.Char_ord"
    "HOL-Library.List_Lexorder"
begin

section \<open>The Proton acquisition pipeline of umu\_proton.py\<close>

text \<open>
  The module downloads a Proton build into the compatibility-tools directory
  (the store), or falls back to a build that is already there. Its functions act on
  the process environment, on the caller's \<open>env\<close> dictionary, on the store and on a
  staging directory, and they talk to the network, to an external download helper and
  to the tar and hash libraries. The embedding keeps the mutable parts in a state
  record that every function takes and returns, and the outside world in a host
  record of answers.

  Byte strings are \<open>string\<close>, a list of 8-bit characters, and a text is kept as its
  UTF-8 encoding: decoding checks that the bytes are well formed and changes nothing
  else. On such texts a suffix, a prefix and the part before the first space are the
  same whether taken by bytes or by code points. File names are single path components
  other than \<open>.\<close> and \<open>..\<close>; the empty name stands for the directory itself.
\<close>

subsection \<open>Strings\<close>

type_synonym bytes = string

definition startswith :: "string \<Rightarrow> string \<Rightarrow> bool" where
  "startswith s p = prefix p s"

definition endswith :: "string \<Rightarrow> string \<Rightarrow> bool" where
  "endswith s p = suffix p s"

text \<open>\<open>str.find\<close>: the lowest index where the substring starts, or \<open>-1\<close>.\<close>

fun find_from :: "int \<Rightarrow> string \<Rightarrow> string \<Rightarrow> int" where
  "find_from i [] sub = (if sub = [] then i else -1)"
| "find_from i (c # cs) sub = (if prefix sub (c # cs) then i else find_from (i + 1) cs sub)"

definition str_find :: "string \<Rightarrow> string \<Rightarrow> int" where
  "str_find s sub = find_from 0 s sub"

text \<open>The slice \<open>s[:i]\<close>; a negative bound counts from the end.\<close>

definition slice_to :: "string \<Rightarrow> int \<Rightarrow> string" where
  "slice_to s i = (if i < 0 then take (nat (int (length s) + i)) s else take (nat i) s)"

text \<open>\<open>tarball[: tarball.find(".tar.gz")]\<close>, the name of the build directory.\<close>

definition proton_dir :: "string \<Rightarrow> string" where
  "proton_dir tarball = slice_to tarball (str_find tarball ''.tar.gz'')"

text \<open>
  \<open>bytes.decode("utf-8")\<close> raises on bytes that are not well-formed UTF-8. The
  automaton reads one byte at a time: \<open>need\<close> continuation bytes are still expected,
  the next of them between \<open>lo\<close> and \<open>hi\<close>.
\<close>

fun utf8_from :: "nat \<Rightarrow> nat \<Rightarrow> nat \<Rightarrow> string \<Rightarrow> bool" where
  "utf8_from need lo hi [] = (need = 0)"
| "utf8_from need lo hi (c # cs) =
     (if need = 0 then
        (if (of_char c :: nat) < 0x80 then utf8_from 0 0x80 0xBF cs
         else if 0xC2 \<le> (of_char c :: nat) \<and> (of_char c :: nat) \<le> 0xDF then utf8_from 1 0x80 0xBF cs
         else if (of_char c :: nat) = 0xE0 then utf8_from 2 0xA0 0xBF cs
         else if (of_char c :: nat) = 0xED then utf8_from 2 0x80 0x9F cs
         else if 0xE1 \<le> (of_char c :: nat) \<and> (of_char c :: nat) \<le> 0xEF then utf8_from 2 0x80 0xBF cs
         else if (of_char c :: nat) = 0xF0 then utf8_from 3 0x90 0xBF cs
         else if 0xF1 \<le> (of_char c :: nat) \<and> (of_char c :: nat) \<le> 0xF3 then utf8_from 3 0x80 0xBF cs
         else if (of_char c :: nat) = 0xF4 then utf8_from 3 0x80 0x8F cs
         else False)
      else if lo \<le> (of_char c :: nat) \<and> (of_char c :: nat) \<le> hi
      then utf8_from (need - 1) 0x80 0xBF cs
      else False)"

definition utf8_valid :: "bytes \<Rightarrow> bool" where
  "utf8_valid bs = utf8_from 0 0x80 0xBF bs"

text \<open>
  \<open>str.splitlines\<close>, on the encoded text. The line boundaries are line feed, carriage
  return (a following line feed belongs to it), vertical tab, form feed, the file, group
  and record separators, and next line (U+0085, the bytes C2 85), line separator
  (U+2028, the bytes E2 80 A8) and paragraph separator (U+2029, the bytes E2 80 A9).
\<close>

definition linebreak :: "char \<Rightarrow> bool" where
  "linebreak c = (of_char c \<in> {10, 11, 12, 13, 28, 29, 30 :: nat})"

text \<open>The number of bytes of the boundary of two or three bytes at the head, or 0.\<close>

fun wide_linebreak :: "string \<Rightarrow> nat" where
  "wide_linebreak (a # b # cs) =
     (if (of_char a :: nat) = 0xC2 \<and> (of_char b :: nat) = 0x85 then 2
      else if (of_char a :: nat) = 0xE2 \<and> (of_char b :: nat) = 0x80
              \<and> (case cs of [] \<Rightarrow> False
                  | c # ds \<Rightarrow> (of_char c :: nat) = 0xA8 \<or> (of_char c :: nat) = 0xA9)
      then 3 else 0)"
| "wide_linebreak cs = 0"

function splitlines_from :: "bool \<Rightarrow> string \<Rightarrow> string \<Rightarrow> string list" where
  "splitlines_from after_cr cur [] = (if cur = [] then [] else [rev cur])"
| "splitlines_from after_cr cur (c # cs) =
     (if after_cr \<and> of_char c = (10 :: nat) then splitlines_from False cur cs
      else if linebreak c then rev cur # splitlines_from (of_char c = (13 :: nat)) [] cs
      else if wide_linebreak (c # cs) \<noteq> 0
      then rev cur # splitlines_from False [] (drop (wide_linebreak (c # cs)) (c # cs))
      else splitlines_from False (c # cur) cs)"
  by pat_completeness auto
termination
  by (relation "measure (\<lambda>(a, cur, s). length s)") auto

definition splitlines :: "string \<Rightarrow> string list" where
  "splitlines s = splitlines_from False [] s"

text \<open>\<open>line.split(" ")[0]\<close>: the line up to its first space.\<close>

definition first_token :: "string \<Rightarrow> string" where
  "first_token line = takeWhile (\<lambda>c. c \<noteq> CHR '' '') line"

text \<open>
  The loop over the lines of the digest file: the last line that ends with the archive
  name gives the digest, the empty string when no line does.
\<close>

definition parse_digest :: "string \<Rightarrow> string \<Rightarrow> string" where
  "parse_digest proton text =
     fold (\<lambda>line digest. if endswith line proton then first_token line else digest)
       (splitlines text) ''''"

definition joinpath :: "string \<Rightarrow> string \<Rightarrow> string" where
  "joinpath dir n = dir @ ''/'' @ n"

text \<open>Truthiness of \<open>d.get(key)\<close> for a string value: present and not empty.\<close>

fun truthy :: "string option \<Rightarrow> bool" where
  "truthy None = False"
| "truthy (Some s) = (s \<noteq> [])"

subsection \<open>Exceptions\<close>

text \<open>
  One constructor for each exception the module raises itself, and for each library
  exception its handlers tell apart. The scheme error and the digest mismatch are both
  raised as \<open>ValueError\<close>; \<open>UnicodeDecodeError\<close> is a subclass of it. The status
  error is raised as \<open>HTTPException\<close>; \<open>IncompleteRead\<close> is a subclass of it.
  \<open>HTTPError\<close> is what \<open>urlopen\<close> raises itself for a response whose status is
  outside 200 to 299; it is a subclass of \<open>URLError\<close>, and no \<open>HTTPException\<close>.
  \<open>OSError\<close> stands for the file-system errors, \<open>TarError\<close> for an unreadable archive.
\<close>

datatype exn =
    ValueError_scheme
  | ValueError_digest
  | UnicodeDecodeError
  | HTTPException_status
  | IncompleteRead
  | KeyboardInterrupt
  | URLError
  | HTTPError
  | RuntimeError
  | IndexError
  | OSError
  | TarError

fun is_ValueError :: "exn \<Rightarrow> bool" where
  "is_ValueError ValueError_scheme = True"
| "is_ValueError ValueError_digest = True"
| "is_ValueError UnicodeDecodeError = True"
| "is_ValueError _ = False"

fun is_HTTPException :: "exn \<Rightarrow> bool" where
  "is_HTTPException HTTPException_status = True"
| "is_HTTPException IncompleteRead = True"
| "is_HTTPException _ = False"

fun is_URLError :: "exn \<Rightarrow> bool" where
  "is_URLError URLError = True"
| "is_URLError HTTPError = True"
| "is_URLError _ = False"

subsection \<open>The store, the staging directory and the state\<close>

text \<open>
  An entry of the store is a regular file, a directory (with a label for its tree) or
  a symbolic link with its target. A link is resolved inside the store; a target that
  is no entry of the store dangles.
\<close>

datatype node = File | Dir string | Link string

type_synonym store = "(string \<times> node) list"

definition glob :: "store \<Rightarrow> string list" where
  "glob st = map fst st"

text \<open>\<open>Path.is_dir\<close> follows links, up to forty of them, and is false on any error.\<close>

fun is_dir_fuel :: "nat \<Rightarrow> store \<Rightarrow> string \<Rightarrow> bool" where
  "is_dir_fuel 0 st n = False"
| "is_dir_fuel (Suc k) st n =
     (case map_of st n of
        None \<Rightarrow> False
      | Some File \<Rightarrow> False
      | Some (Dir c) \<Rightarrow> True
      | Some (Link t) \<Rightarrow> is_dir_fuel k st t)"

definition is_dir :: "store \<Rightarrow> string \<Rightarrow> bool" where
  "is_dir st n = is_dir_fuel 41 st n"

datatype event =
    Request string
  | Helper string
  | Verified string
  | Extracting string

record state =
  environ :: "string \<rightharpoonup> string"
  env :: "string \<rightharpoonup> string"
  store :: store
  staging :: "(string \<times> bytes) list"
  trace :: "event list"

definition log :: "event \<Rightarrow> state \<Rightarrow> state" where
  "log e s = s\<lparr>trace := trace s @ [e]\<rparr>"

text \<open>
  \<open>environ["PROTONPATH"] = path; env["PROTONPATH"] = environ["PROTONPATH"]\<close>
\<close>

definition set_protonpath :: "string \<Rightarrow> state \<Rightarrow> state" where
  "set_protonpath p s =
     s\<lparr>environ := (environ s)(''PROTONPATH'' \<mapsto> p), env := (env s)(''PROTONPATH'' \<mapsto> p)\<rparr>"

text \<open>The vendor: \<open>"GE-Proton" if environ.get("PROTONPATH") == "GE-Proton" else "UMU-Proton"\<close>.\<close>

definition version :: "state \<Rightarrow> string" where
  "version s = (if environ s ''PROTONPATH'' = Some ''GE-Proton'' then ''GE-Proton'' else ''UMU-Proton'')"

subsection \<open>The host\<close>

record asset =
  name :: "string option"
  browser_download_url :: "string option"

text \<open>A release of the index is the list under its \<open>assets\<close> key, empty when the key is missing.\<close>

type_synonym release = "asset list"

text \<open>
  A response has its status and its body; \<open>read_error\<close> is an exception that reading
  raises once the body has been delivered.
\<close>

record response =
  status :: nat
  body :: bytes
  read_error :: "exn option"

text \<open>
  What the code asks of the outside: the store's location; the answer of the release
  index (the status and the decoded JSON of the last response, after redirections, or
  the exception of the transport or of the decoding); the answer to the request of any
  other URL; the SHA-512 digest in hexadecimal; the members of a tar archive at its top
  level; the helper, which answers with its exit status and the files it left in the
  staging directory; and which of the two tasks of the update runs first.
\<close>

record host =
  STEAM_COMPAT :: string
  index :: "string \<Rightarrow> exn + nat \<times> release list"
  http_get :: "string \<Rightarrow> exn + response"
  sha512_hexdigest :: "bytes \<Rightarrow> string"
  tar_members :: "bytes \<Rightarrow> exn + (string \<times> node) list"
  run_zenity :: "string \<Rightarrow> int \<times> (string \<times> bytes) list"
  extract_first :: bool

text \<open>
  \<open>urllib.request.urlopen\<close>: its \<open>HTTPErrorProcessor\<close> hands a response back only
  when \<open>200 <= code < 300\<close>, and raises \<open>HTTPError\<close> for any other status.
\<close>

definition urlopen :: "host \<Rightarrow> string \<Rightarrow> exn + response" where
  "urlopen h u =
     (case http_get h u of
        Inl e \<Rightarrow> Inl e
      | Inr resp \<Rightarrow> if status resp < 200 \<or> 300 \<le> status resp then Inl HTTPError else Inr resp)"

type_synonym files = "(string \<times> string) list"

subsection \<open>fetch\_releases\<close>

definition qualifies :: "asset \<Rightarrow> bool" where
  "qualifies a =
     (truthy (name a)
      \<and> (endswith (the (name a)) ''sum''
         \<or> (endswith (the (name a)) ''tar.gz''
            \<and> (startswith (the (name a)) ''UMU-Proton'' \<or> startswith (the (name a)) ''GE-Proton'')))
      \<and> truthy (browser_download_url a))"

text \<open>
  The loop over the assets of one release. Both branches of the test on the \<open>sum\<close>
  suffix append the asset at the end of the list.
\<close>

fun collect_assets :: "asset list \<Rightarrow> files \<Rightarrow> files" where
  "collect_assets [] files = files"
| "collect_assets (a # as) files =
     (let files' =
        (if qualifies a then
           (if endswith (the (name a)) ''sum''
            then files @ [(the (name a), the (browser_download_url a))]
            else files @ [(the (name a), the (browser_download_url a))])
         else files)
      in if length files' = 2 then files' else collect_assets as files')"

text \<open>The loop over the releases: the first one that has assets is inspected, no other.\<close>

fun scan_releases :: "release list \<Rightarrow> files" where
  "scan_releases [] = []"
| "scan_releases (r # rs) = (if r = [] then scan_releases rs else collect_assets r [])"

definition releases_url :: "state \<Rightarrow> string" where
  "releases_url s =
     ''https://api.github.com'' @
     (if environ s ''PROTONPATH'' = Some ''GE-Proton''
      then ''/repos/GloriousEggroll/proton-ge-custom/releases''
      else ''/repos/Open-Wine-Components/umu-proton/releases'')"

text \<open>
  The request of the index goes through \<open>urlopen\<close> too, so a status outside 200 to 299
  is raised as \<open>HTTPError\<close> before the code sees the response; the test
  \<open>resp.status != 200\<close> of the code is met by the other statuses from 201 to 299.
\<close>

definition fetch_releases :: "host \<Rightarrow> state \<Rightarrow> (exn + files) \<times> state" where
  "fetch_releases h s =
     (let s1 = log (Request (releases_url s)) s in
      (case index h (releases_url s) of
         Inl e \<Rightarrow> (Inl e, s1)
       | Inr (st, rels) \<Rightarrow>
           if st < 200 \<or> 300 \<le> st then (Inl HTTPError, s1)
           else if st \<noteq> 200 then (Inr [], s1)
           else let files = scan_releases rels in
                if length files \<noteq> 2 then (Inl RuntimeError, s1) else (Inr files, s1)))"

subsection \<open>get\_from\_steamcompat\<close>

text \<open>
  \<open>max(protons)\<close> compares paths in the same directory, that is their names, as
  strings. The list is not empty where the code calls it.
\<close>

fun py_max :: "string list \<Rightarrow> string" where
  "py_max [] = []"
| "py_max (x # xs) = fold max xs x"

definition get_from_steamcompat :: "host \<Rightarrow> state \<Rightarrow> bool \<times> state" where
  "get_from_steamcompat h s =
     (let protons = filter (\<lambda>n. startswith n (version s)) (glob (store s)) in
      if protons = [] then (False, s)
      else (True, set_protonpath (joinpath (STEAM_COMPAT h) (py_max protons)) s))"

subsection \<open>fetch\_proton\<close>

text \<open>
  The download loop: \<open>resp.read(chunk_size)\<close> until the empty chunk, each chunk
  appended to the staging file and fed to the hash object. The hash object is the
  bytes it has been fed; its digest is the host's function of them.
\<close>

function chunks :: "nat \<Rightarrow> bytes \<Rightarrow> bytes list" where
  "chunks n xs = (if n = 0 \<or> xs = [] then [] else take n xs # chunks n (drop n xs))"
  by pat_completeness auto
termination
  by (relation "measure (\<lambda>(n, xs). length xs)") auto

declare chunks.simps [simp del]

definition read_loop :: "bytes list \<Rightarrow> bytes \<times> bytes \<Rightarrow> bytes \<times> bytes" where
  "read_loop cs fh = fold (\<lambda>chunk (file, hash). (file @ chunk, hash @ chunk)) cs fh"

definition read_body :: "nat \<Rightarrow> bytes \<Rightarrow> bytes \<times> bytes \<Rightarrow> bytes \<times> bytes" where
  "read_body chunk_size data fh = read_loop (chunks chunk_size data) fh"

text \<open>\<open>tmp.joinpath(proton).open(mode="ab")\<close>: the file as it is, or a new empty one.\<close>

definition open_append :: "string \<Rightarrow> (string \<times> bytes) list \<Rightarrow> bytes" where
  "open_append n stg = (case map_of stg n of None \<Rightarrow> [] | Some old \<Rightarrow> old)"

text \<open>
  The comparison at the end of the download:
  \<open>if hash.hexdigest() != digest: raise ValueError(...)\<close>.
\<close>

definition check_digest :: "host \<Rightarrow> bytes \<Rightarrow> string \<Rightarrow> exn + unit" where
  "check_digest h hash digest =
     (if sha512_hexdigest h hash \<noteq> digest then Inl ValueError_digest else Inr ())"

text \<open>The download from Python, with the comparison of the digests at its end.\<close>

definition download :: "host \<Rightarrow> string \<Rightarrow> string \<Rightarrow> string \<Rightarrow> state \<Rightarrow> (exn + unit) \<times> state" where
  "download h proton proton_url digest s =
     (let s1 = log (Request proton_url) s in
      (case urlopen h proton_url of
        Inl e \<Rightarrow> (Inl e, s1)
      | Inr resp \<Rightarrow>
          if status resp \<noteq> 200 then (Inl HTTPException_status, s1)
          else
            let (file, hash) =
                  read_body (64 * 1024) (body resp) (open_append proton (staging s1), []);
                s2 = s1\<lparr>staging := AList.update proton file (staging s1)\<rparr>
            in (case read_error resp of
                  Some e \<Rightarrow> (Inl e, s2)
                | None \<Rightarrow>
                    (case check_digest h hash digest of
                       Inl e \<Rightarrow> (Inl e, s2)
                     | Inr x \<Rightarrow> (Inr (), log (Verified proton) s2)))))"

text \<open>
  The part of \<open>_fetch_proton\<close> after the digest file: the helper when
  \<open>UMU_ZENITY\<close> is \<open>"1"\<close>, the removal of its file when it failed, and the download
  from Python when \<open>UMU_ZENITY\<close> is unset or empty or the helper failed.
\<close>

definition fetch_archive :: "host \<Rightarrow> string \<Rightarrow> string \<Rightarrow> string \<Rightarrow> state \<Rightarrow> (exn + unit) \<times> state" where
  "fetch_archive h proton proton_url digest s =
     (let (ret, s1) =
            (if environ s ''UMU_ZENITY'' = Some ''1''
             then (fst (run_zenity h proton_url),
                   (log (Helper proton_url) s)
                     \<lparr>staging := fold (\<lambda>(n, b). AList.update n b) (snd (run_zenity h proton_url)) (staging s)\<rparr>)
             else (0, s));
          s2 = (if ret \<noteq> 0 then s1\<lparr>staging := AList.delete proton (staging s1)\<rparr> else s1)
      in if \<not> truthy (environ s ''UMU_ZENITY'') \<or> ret \<noteq> 0
         then download h proton proton_url digest s2
         else (Inr (), s2))"

definition fetch_proton :: "host \<Rightarrow> files \<Rightarrow> state \<Rightarrow> (exn + unit) \<times> state" where
  "fetch_proton h files s =
     (case files of
        (hash, hash_url) # (proton, proton_url) # rest \<Rightarrow>
          if \<not> startswith proton_url ''https:'' \<or> \<not> startswith hash_url ''https:''
          then (Inl ValueError_scheme, s)
          else
            let s1 = log (Request hash_url) s in
            (case urlopen h hash_url of
               Inl e \<Rightarrow> (Inl e, s1)
             | Inr resp \<Rightarrow>
                 if status resp \<noteq> 200 then (Inl HTTPException_status, s1)
                 else (case read_error resp of
                         Some e \<Rightarrow> (Inl e, s1)
                       | None \<Rightarrow>
                           if utf8_valid (body resp)
                           then fetch_archive h proton proton_url (parse_digest proton (body resp)) s1
                           else (Inl UnicodeDecodeError, s1)))
      | _ \<Rightarrow> (Inl IndexError, s))"

subsection \<open>extract\_dir\<close>

text \<open>
  Opening a name for writing follows links, as \<open>is_dir\<close> does: the result is the name
  at the end of the links and the entry there, or nothing after too many links.
\<close>

fun resolve_fuel :: "nat \<Rightarrow> store \<Rightarrow> string \<Rightarrow> (string \<times> node option) option" where
  "resolve_fuel 0 st n = None"
| "resolve_fuel (Suc k) st n =
     (case map_of st n of
        Some (Link t) \<Rightarrow> resolve_fuel k st t
      | v \<Rightarrow> Some (n, v))"

definition resolve :: "store \<Rightarrow> string \<Rightarrow> (string \<times> node option) option" where
  "resolve st n = resolve_fuel 41 st n"

text \<open>
  \<open>tar.extractall\<close> writes the members in their order and stops at the first error.
  A directory member (\<open>makedir\<close>) is created where the name is free; over a directory it
  leaves a directory with the member's tree, over a link to a directory it extracts
  through the link, and over anything else it raises. A file member (\<open>makefile\<close>) is
  opened for writing: it is created where the name is free, replaces a file, raises
  over a directory, and over a link it is written where the links end, so it raises
  when they end at a directory or do not end, and creates the file when they end at a
  free name. A link member (\<open>makelink\<close>) replaces a file or a link and raises over a
  directory.
\<close>

definition extract_member :: "string \<Rightarrow> node \<Rightarrow> store \<Rightarrow> exn + store" where
  "extract_member n nd st =
     (case nd of
        Dir c \<Rightarrow>
          (case map_of st n of
             None \<Rightarrow> Inr (AList.update n nd st)
           | Some (Dir c0) \<Rightarrow> Inr (AList.update n nd st)
           | Some old \<Rightarrow> if is_dir st n then Inr st else Inl OSError)
      | File \<Rightarrow>
          (case resolve st n of
             None \<Rightarrow> Inl OSError
           | Some (t, Some (Dir c0)) \<Rightarrow> Inl OSError
           | Some (t, v) \<Rightarrow> Inr (AList.update t File st))
      | Link t \<Rightarrow>
          (case map_of st n of
             Some (Dir c0) \<Rightarrow> Inl OSError
           | v \<Rightarrow> Inr (AList.update n nd st)))"

fun extractall :: "(string \<times> node) list \<Rightarrow> store \<Rightarrow> exn option \<times> store" where
  "extractall [] st = (None, st)"
| "extractall ((n, nd) # ms) st =
     (case extract_member n nd st of
        Inl e \<Rightarrow> (Some e, st)
      | Inr st' \<Rightarrow> extractall ms st')"

text \<open>Opening a staging file that is not there raises; so does an archive that cannot be read.\<close>

definition extract_dir :: "host \<Rightarrow> string \<Rightarrow> state \<Rightarrow> exn option \<times> state" where
  "extract_dir h file s =
     (case map_of (staging s) file of
        None \<Rightarrow> (Some OSError, s)
      | Some data \<Rightarrow>
          (case tar_members h data of
             Inl e \<Rightarrow> (Some e, s)
           | Inr ms \<Rightarrow>
               let s1 = log (Extracting file) s;
                   (r, st) = extractall ms (store s1)
               in (r, s1\<lparr>store := st\<rparr>)))"

subsection \<open>Unlinking and removing\<close>

text \<open>\<open>Path.unlink(missing_ok=True)\<close> raises on a directory and on nothing else.\<close>

definition unlink :: "string \<Rightarrow> store \<Rightarrow> exn + store" where
  "unlink n st = (case map_of st n of Some (Dir c) \<Rightarrow> Inl OSError | _ \<Rightarrow> Inr (AList.delete n st))"

text \<open>\<open>shutil.rmtree\<close> removes a directory and refuses a symbolic link.\<close>

definition rmtree :: "string \<Rightarrow> store \<Rightarrow> exn + store" where
  "rmtree n st = (case map_of st n of Some (Dir c) \<Rightarrow> Inr (AList.delete n st) | _ \<Rightarrow> Inl OSError)"

text \<open>
  \<open>_cleanup\<close>. With the empty name \<open>tmp.joinpath(tarball)\<close> is the staging directory,
  which is no file, and \<open>steam_compat.joinpath(proton)\<close> is the store, which is a
  directory and is removed with all its entries.
\<close>

definition cleanup :: "string \<Rightarrow> string \<Rightarrow> state \<Rightarrow> exn option \<times> state" where
  "cleanup tarball proton s =
     (let s1 = (if tarball \<noteq> [] \<and> map_of (staging s) tarball \<noteq> None
                then s\<lparr>staging := AList.delete tarball (staging s)\<rparr> else s)
      in if proton = [] then (None, s1\<lparr>store := []\<rparr>)
         else if is_dir (store s1) proton
         then (case rmtree proton (store s1) of
                 Inl e \<Rightarrow> (Some e, s1)
               | Inr st \<Rightarrow> (None, s1\<lparr>store := st\<rparr>))
         else (None, s1))"

subsection \<open>update\_proton\<close>

text \<open>
  The loop over the previous builds: each one that is a directory when its turn comes
  is removed by a task of its own, and the tasks are joined afterwards, so every
  removal is tried and the first exception is the one raised.
\<close>

fun remove_builds :: "string list \<Rightarrow> store \<Rightarrow> exn option \<times> store" where
  "remove_builds [] st = (None, st)"
| "remove_builds (p # ps) st =
     (if is_dir st p then
        (case rmtree p st of
           Inl e \<Rightarrow> (Some e, snd (remove_builds ps st))
         | Inr st' \<Rightarrow> remove_builds ps st')
      else remove_builds ps st)"

definition update_proton :: "string \<Rightarrow> string list \<Rightarrow> state \<Rightarrow> exn option \<times> state" where
  "update_proton proton protons s =
     (case unlink ''UMU-Latest'' (store s) of
        Inl e \<Rightarrow> (Some e, s)
      | Inr st \<Rightarrow>
          let (r, st') = remove_builds protons (AList.update ''UMU-Latest'' (Link proton) st)
          in (r, s\<lparr>store := st'\<rparr>))"

subsection \<open>get\_latest\<close>

text \<open>
  The two tasks of the UMU-Proton branch run in the order the host gives; each runs
  whether or not the other failed, and the results are taken in the order of
  submission: the extraction's exception first.
\<close>

definition finalize :: "host \<Rightarrow> string \<Rightarrow> string \<Rightarrow> string \<Rightarrow> state \<Rightarrow> exn option \<times> state" where
  "finalize h ver tarball proton s =
     (if ver = ''UMU-Proton'' then
        let protons = filter (\<lambda>n. startswith n ''UMU-Proton'' \<or> startswith n ''ULWGL-Proton'')
                        (glob (store s))
        in if extract_first h then
             let (r1, sa) = extract_dir h tarball s;
                 (r2, sb) = update_proton proton protons sa
             in (case r1 of Some e \<Rightarrow> (Some e, sb) | None \<Rightarrow> (r2, sb))
           else
             let (r2, sa) = update_proton proton protons s;
                 (r1, sb) = extract_dir h tarball sa
             in (case r1 of Some e \<Rightarrow> (Some e, sb) | None \<Rightarrow> (r2, sb))
      else extract_dir h tarball s)"

text \<open>
  The body of the \<open>try\<close> statement. When the name of the build is empty,
  \<open>steam_compat.joinpath(proton)\<close> is the store itself, which is a directory, and
  \<open>symlink_to\<close> raises on the empty target after the alias has been unlinked.
\<close>

definition attempt :: "host \<Rightarrow> files \<Rightarrow> state \<Rightarrow> (exn + unit) \<times> state" where
  "attempt h files s =
     (case files of
        f0 # (tarball, u) # rest \<Rightarrow>
          let proton = proton_dir tarball in
          if proton = [] then
            (case unlink ''UMU-Latest'' (store s) of
               Inl e \<Rightarrow> (Inl e, s)
             | Inr st \<Rightarrow> (Inl OSError, s\<lparr>store := st\<rparr>))
          else if is_dir (store s) proton then
            (case unlink ''UMU-Latest'' (store s) of
               Inl e \<Rightarrow> (Inl e, s)
             | Inr st \<Rightarrow>
                 (Inr (),
                  set_protonpath (joinpath (STEAM_COMPAT h) proton)
                    (s\<lparr>store := AList.update ''UMU-Latest'' (Link proton) st\<rparr>)))
          else
            (case fetch_proton h files s of
               (Inl e, s1) \<Rightarrow> (Inl e, s1)
             | (Inr x, s1) \<Rightarrow>
                 (case finalize h (version s) tarball proton s1 of
                    (Some e, s2) \<Rightarrow> (Inl e, s2)
                  | (None, s2) \<Rightarrow>
                      let s3 = set_protonpath (joinpath (STEAM_COMPAT h) proton) s2
                      in (Inr (), s3\<lparr>staging := AList.delete tarball (staging s3)\<rparr>)))
      | _ \<Rightarrow> (Inl IndexError, s))"

text \<open>
  The handlers, in the order of the source. The result \<open>Inr True\<close> is the return of
  \<open>env\<close>, \<open>Inr False\<close> the return of \<open>None\<close>, \<open>Inl e\<close> an exception that leaves the
  function.
\<close>

definition get_latest :: "host \<Rightarrow> files \<Rightarrow> state \<Rightarrow> (exn + bool) \<times> state" where
  "get_latest h files s =
     (if files = [] then (Inr False, s)
      else
        (case attempt h files s of
           (Inr x, s1) \<Rightarrow> (Inr True, s1)
         | (Inl e, s1) \<Rightarrow>
             if is_ValueError e then
               (case files of
                  f0 # (tarball, u) # rest \<Rightarrow>
                    (Inr False, s1\<lparr>staging := AList.delete tarball (staging s1)\<rparr>)
                | _ \<Rightarrow> (Inl IndexError, s1))
             else if e = KeyboardInterrupt then
               (case files of
                  f0 # (tarball, u) # rest \<Rightarrow>
                    (case cleanup tarball (proton_dir tarball) s1 of
                       (Some e', s2) \<Rightarrow> (Inl e', s2)
                     | (None, s2) \<Rightarrow> (Inr False, s2))
                | _ \<Rightarrow> (Inl IndexError, s1))
             else if is_HTTPException e then (Inr False, s1)
             else (Inl e, s1)))"

subsection \<open>get\_umu\_proton\<close>

text \<open>
  The staging directory is a new one. Only \<open>URLError\<close>, with its subclass
  \<open>HTTPError\<close>, is caught around the query of the index, and leaves the list of files
  empty. The value returned is the \<open>env\<close> of the final state.
\<close>

definition query_releases :: "host \<Rightarrow> state \<Rightarrow> (exn + files) \<times> state" where
  "query_releases h s =
     (case fetch_releases h (s\<lparr>staging := []\<rparr>) of
        (Inl e, s1) \<Rightarrow> (if is_URLError e then (Inr [], s1) else (Inl e, s1))
      | (Inr fs, s1) \<Rightarrow> (Inr fs, s1))"

definition get_umu_proton :: "host \<Rightarrow> state \<Rightarrow> (exn + unit) \<times> state" where
  "get_umu_proton h s =
     (case query_releases h s of
        (Inl e, s1) \<Rightarrow> (Inl e, s1)
      | (Inr files, s1) \<Rightarrow>
          (case get_latest h files s1 of
             (Inl e, s2) \<Rightarrow> (Inl e, s2)
           | (Inr True, s2) \<Rightarrow> (Inr (), s2)
           | (Inr False, s2) \<Rightarrow>
               (case get_from_steamcompat h s2 of
                  (True, s3) \<Rightarrow> (Inr (), s3)
                | (False, s3) \<Rightarrow>
                    (Inr (), s3\<lparr>environ := (environ s3)(''PROTONPATH'' \<mapsto> '''')\<rparr>))))"

subsection \<open>Vocabulary of the properties\<close>

text \<open>The release the loop inspects: the first one that has assets.\<close>

definition inspected :: "release list \<Rightarrow> release" where
  "inspected rels = (case dropWhile (\<lambda>r. r = []) rels of [] \<Rightarrow> [] | r # rs \<Rightarrow> r)"

definition asset_pair :: "asset \<Rightarrow> string \<times> string" where
  "asset_pair a = (the (name a), the (browser_download_url a))"

text \<open>Case folding of a digest string, the normalisation a comparison could apply.\<close>

definition lowercase :: "string \<Rightarrow> string" where
  "lowercase s =
     map (\<lambda>c. if 65 \<le> (of_char c :: nat) \<and> (of_char c :: nat) \<le> 90
              then char_of (of_char c + (32 :: nat)) else c) s"

text \<open>The names that the UMU-Proton branch looks for among the previous builds.\<close>

definition stable_name :: "string \<Rightarrow> bool" where
  "stable_name n = (startswith n ''UMU-Proton'' \<or> startswith n ''ULWGL-Proton'')"

text \<open>No request, helper run, verification or extraction among the events.\<close>

fun is_request :: "event \<Rightarrow> bool" where
  "is_request (Request u) = True"
| "is_request e = False"

subsection \<open>A host and states for the examples\<close>

text \<open>
  The digests are the SHA-512 digests of the three payloads \<open>umu\<close>, \<open>ge\<close> and
  \<open>tampered\<close>; elsewhere the table holds zeros.
\<close>

definition sha512_table :: "bytes \<Rightarrow> string" where
  "sha512_table data =
     (if data = ''umu'' then
        ''350e7bd9defc8de58b5a065cbc0abd5352bfb89c2919d35ab9da018955804a04c25e0ffef6215f678f7eb9a7cafd1c7c27772d2af81acd078e5dc6d78e1e8682''
      else if data = ''ge'' then
        ''3954dd9420eadc62beddbbc8d2b6bd979188a6dd00f9d871be4673614b2f52b2f824721cf7850fe1ff4c78424ef7d7cf167d76c36a0e230b5ea533a82898a7e1''
      else if data = ''tampered'' then
        ''72e0305d3fcfcad84a03e7c1903e912162950491e6d0c7d0e236a04c1800815542cb763c9a251ad01c1c4d72d6aba9e92605e2ed97b463f6b908da58d8cb7870''
      else replicate 128 (CHR ''0''))"

definition umu_sum :: asset where
  "umu_sum = \<lparr>name = Some ''UMU-Proton-9.0.sha512sum'',
     browser_download_url = Some ''https://github.com/umu/UMU-Proton-9.0.sha512sum''\<rparr>"

definition umu_tar :: asset where
  "umu_tar = \<lparr>name = Some ''UMU-Proton-9.0.tar.gz'',
     browser_download_url = Some ''https://github.com/umu/UMU-Proton-9.0.tar.gz''\<rparr>"

definition ge_sum :: asset where
  "ge_sum = \<lparr>name = Some ''GE-Proton9-1.sha512sum'',
     browser_download_url = Some ''https://github.com/ge/GE-Proton9-1.sha512sum''\<rparr>"

definition ge_tar :: asset where
  "ge_tar = \<lparr>name = Some ''GE-Proton9-1.tar.gz'',
     browser_download_url = Some ''https://github.com/ge/GE-Proton9-1.tar.gz''\<rparr>"

definition release_notes :: asset where
  "release_notes = \<lparr>name = Some ''release-notes.txt'',
     browser_download_url = Some ''https://github.com/umu/release-notes.txt''\<rparr>"

definition github_index :: "string \<Rightarrow> exn + nat \<times> release list" where
  "github_index u =
     (if u = ''https://api.github.com/repos/Open-Wine-Components/umu-proton/releases''
      then Inr (200, [[], [release_notes, umu_sum, umu_tar]])
      else if u = ''https://api.github.com/repos/GloriousEggroll/proton-ge-custom/releases''
      then Inr (200, [[ge_sum, ge_tar]])
      else Inl URLError)"

definition github_urlopen :: "string \<Rightarrow> exn + response" where
  "github_urlopen u =
     (if u = ''https://github.com/umu/UMU-Proton-9.0.sha512sum'' then
        Inr \<lparr>status = 200,
             body = sha512_table ''umu'' @ ''  UMU-Proton-9.0.tar.gz'' @ [CHR 0x0A],
             read_error = None\<rparr>
      else if u = ''https://github.com/umu/UMU-Proton-9.0.tar.gz'' then
        Inr \<lparr>status = 200, body = ''umu'', read_error = None\<rparr>
      else if u = ''https://github.com/ge/GE-Proton9-1.sha512sum'' then
        Inr \<lparr>status = 200,
             body = sha512_table ''ge'' @ ''  GE-Proton9-1.tar.gz'' @ [CHR 0x0A],
             read_error = None\<rparr>
      else if u = ''https://github.com/ge/GE-Proton9-1.tar.gz'' then
        Inr \<lparr>status = 200, body = ''ge'', read_error = None\<rparr>
      else Inl URLError)"

definition github_tar :: "bytes \<Rightarrow> exn + (string \<times> node) list" where
  "github_tar data =
     (if data = ''umu'' then Inr [(''UMU-Proton-9.0'', Dir ''umu'')]
      else if data = ''ge'' then Inr [(''GE-Proton9-1'', Dir ''ge'')]
      else if data = ''tampered'' then Inr [(''UMU-Proton-9.0'', Dir ''tampered'')]
      else Inl TarError)"

text \<open>The helper of this host exits with status 0 and leaves a tampered archive.\<close>

definition github_zenity :: "string \<Rightarrow> int \<times> (string \<times> bytes) list" where
  "github_zenity u = (0, [(''UMU-Proton-9.0.tar.gz'', ''tampered'')])"

definition github :: host where
  "github = \<lparr>STEAM_COMPAT = ''/home/u/.local/share/Steam/compatibilitytools.d'',
     index = github_index, http_get = github_urlopen, sha512_hexdigest = sha512_table,
     tar_members = github_tar, run_zenity = github_zenity, extract_first = True\<rparr>"

text \<open>The same host with the other order of the two tasks.\<close>

definition github_late :: host where
  "github_late = github\<lparr>extract_first := False\<rparr>"

text \<open>An index that answers with status 202.\<close>

definition accepted_index :: "string \<Rightarrow> exn + nat \<times> release list" where
  "accepted_index u = Inr (202, [[umu_sum, umu_tar]])"

definition github_accepted :: host where
  "github_accepted = github\<lparr>index := accepted_index\<rparr>"

text \<open>An index whose release lists the archive before the digest file.\<close>

definition swapped_index :: "string \<Rightarrow> exn + nat \<times> release list" where
  "swapped_index u = Inr (200, [[umu_tar, umu_sum]])"

definition github_swapped :: host where
  "github_swapped = github\<lparr>index := swapped_index\<rparr>"

text \<open>A host without network.\<close>

definition unreachable :: "string \<Rightarrow> exn + nat \<times> release list" where
  "unreachable u = Inl URLError"

definition offline :: host where
  "offline = github\<lparr>index := unreachable\<rparr>"

text \<open>
  A store with two older builds; the environment selects no vendor, the GE-Proton
  vendor, or the helper.
\<close>

definition old_store :: store where
  "old_store = [(''UMU-Proton-8.0'', Dir ''old umu''), (''GE-Proton8-1'', Dir ''old ge''),
                (''ULWGL-Proton-7.0'', Dir ''old ulwgl'')]"

definition start :: state where
  "start = \<lparr>environ = Map.empty, env = Map.empty, store = old_store, staging = [], trace = []\<rparr>"

definition start_ge :: state where
  "start_ge = \<lparr>environ = [''PROTONPATH'' \<mapsto> ''GE-Proton''], env = Map.empty,
     store = old_store, staging = [], trace = []\<rparr>"

definition start_zenity :: state where
  "start_zenity = \<lparr>environ = [''UMU_ZENITY'' \<mapsto> ''1''], env = Map.empty,
     store = old_store, staging = [], trace = []\<rparr>"

definition start_empty :: state where
  "start_empty = \<lparr>environ = Map.empty, env = Map.empty, store = [], staging = [], trace = []\<rparr>"

definition three_builds :: state where
  "three_builds = \<lparr>environ = Map.empty, env = Map.empty,
     store = [(''UMU-Proton-7.0'', Dir ''a''), (''UMU-Proton-9.0'', Dir ''c''),
              (''GE-Proton9-1'', Dir ''g''), (''UMU-Proton-8.1'', Dir ''b'')],
     staging = [], trace = []\<rparr>"



text \<open>The two files of each release, in the order of the index, and the state after an update.\<close>

definition umu_files :: files where
  "umu_files = [(''UMU-Proton-9.0.sha512sum'', ''https://github.com/umu/UMU-Proton-9.0.sha512sum''),
                (''UMU-Proton-9.0.tar.gz'', ''https://github.com/umu/UMU-Proton-9.0.tar.gz'')]"

definition ge_files :: files where
  "ge_files = [(''GE-Proton9-1.sha512sum'', ''https://github.com/ge/GE-Proton9-1.sha512sum''),
               (''GE-Proton9-1.tar.gz'', ''https://github.com/ge/GE-Proton9-1.tar.gz'')]"

definition umu_path :: string where
  "umu_path = ''/home/u/.local/share/Steam/compatibilitytools.d/UMU-Proton-9.0''"

definition ge_path :: string where
  "ge_path = ''/home/u/.local/share/Steam/compatibilitytools.d/GE-Proton9-1''"

definition installed :: state where
  "installed = \<lparr>environ = [''PROTONPATH'' \<mapsto> umu_path], env = [''PROTONPATH'' \<mapsto> umu_path],
     store = [(''GE-Proton8-1'', Dir ''old ge''), (''UMU-Proton-9.0'', Dir ''umu''),
              (''UMU-Latest'', Link ''UMU-Proton-9.0'')],
     staging = [],
     trace = [Request ''https://api.github.com/repos/Open-Wine-Components/umu-proton/releases'',
              Request ''https://github.com/umu/UMU-Proton-9.0.sha512sum'',
              Request ''https://github.com/umu/UMU-Proton-9.0.tar.gz'',
              Verified ''UMU-Proton-9.0.tar.gz'',
              Extracting ''UMU-Proton-9.0.tar.gz'']\<rparr>"

section \<open>Properties\<close>

lemmas host_defs = github_def github_index_def github_urlopen_def github_tar_def
  github_zenity_def sha512_table_def umu_sum_def umu_tar_def ge_sum_def ge_tar_def
  release_notes_def

subsection \<open>Evaluation\<close>

text \<open>The download loop leaves the body behind the file and behind the bytes hashed.\<close>

lemma chunks_Nil: "chunks n [] = []"
  by (subst chunks.simps) simp

lemma read_loop_chunks:
  "0 < n \<Longrightarrow> read_loop (chunks n xs) (f, d) = (f @ xs, d @ xs)"
proof (induction n xs arbitrary: f d rule: chunks.induct)
  case (1 n xs)
  show ?case
  proof (cases "xs = []")
    case True
    then show ?thesis by (simp add: read_loop_def chunks_Nil)
  next
    case False
    with "1.prems" have step: "chunks n xs = take n xs # chunks n (drop n xs)"
      by (subst chunks.simps) simp
    from "1.IH" [of "f @ take n xs" "d @ take n xs"] False "1.prems"
    have "read_loop (chunks n (drop n xs)) (f @ take n xs, d @ take n xs)
            = ((f @ take n xs) @ drop n xs, (d @ take n xs) @ drop n xs)"
      by simp
    then show ?thesis unfolding step by (simp add: read_loop_def)
  qed
qed

lemma read_body_code [code]:
  "read_body n xs (f, d) = (if n = 0 then (f, d) else (f @ xs, d @ xs))"
proof (cases "n = 0")
  case True
  then have "chunks n xs = []" by (subst chunks.simps) simp
  with True show ?thesis by (simp add: read_body_def read_loop_def)
next
  case False
  then show ?thesis by (simp add: read_body_def read_loop_chunks)
qed

subsection \<open>The release source client\<close>

lemma collect_assets_take:
  "length files < 2 \<Longrightarrow>
   collect_assets as files = take 2 (files @ map asset_pair (filter qualifies as))"
proof (induction as arbitrary: files)
  case Nil
  then show ?case by simp
next
  case (Cons a as)
  show ?case
  proof (cases "qualifies a")
    case False
    with Cons show ?thesis by (simp add: Let_def)
  next
    case True
    show ?thesis
    proof (cases "length files = 1")
      case True
      with \<open>qualifies a\<close> show ?thesis by (simp add: Let_def asset_pair_def)
    next
      case False
      with Cons.prems have emp: "files = []" by (cases files) auto
      then have "length (files @ [asset_pair a]) < 2" by simp
      from Cons.IH [OF this] \<open>qualifies a\<close> emp show ?thesis
        by (simp add: Let_def asset_pair_def)
    qed
  qed
qed

lemma scan_releases_inspected:
  "scan_releases rels = take 2 (map asset_pair (filter qualifies (inspected rels)))"
proof (induction rels)
  case Nil
  then show ?case by (simp add: inspected_def)
next
  case (Cons r rels)
  then show ?case by (simp add: inspected_def collect_assets_take)
qed

text \<open>
  Claim C5, as the code has it. A failure of the transport leaves \<open>fetch_releases\<close> as
  the exception it is, and so does a status outside 200 to 299, which \<open>urlopen\<close> raises
  as \<open>HTTPError\<close>. A status from 201 to 299 makes it return the empty list, without an
  exception. With status 200 it raises \<open>RuntimeError\<close> when the inspected release has
  fewer than two qualifying assets, and otherwise returns a list of exactly two entries,
  each of them a qualifying asset of the inspected release. So a list it returns is
  empty or has two entries; of what kinds the two are, and in which order, is the
  matter of claim C6.
\<close>

theorem fetch_releases_result:
  "(case index h (releases_url s) of
      Inl e \<Rightarrow> fst (fetch_releases h s) = Inl e
    | Inr (st, rels) \<Rightarrow>
        if st < 200 \<or> 300 \<le> st then fst (fetch_releases h s) = Inl HTTPError
        else if st \<noteq> 200 then fst (fetch_releases h s) = Inr []
        else if length (filter qualifies (inspected rels)) < 2
        then fst (fetch_releases h s) = Inl RuntimeError
        else (\<exists>a b. fst (fetch_releases h s) = Inr [asset_pair a, asset_pair b]
                \<and> a \<in> set (inspected rels) \<and> qualifies a
                \<and> b \<in> set (inspected rels) \<and> qualifies b))"
proof (cases "index h (releases_url s)")
  case (Inl e)
  then show ?thesis by (simp add: fetch_releases_def Let_def)
next
  case (Inr p)
  obtain st rels where p: "p = (st, rels)" by (cases p)
  show ?thesis
  proof (cases "st = 200 \<and> 2 \<le> length (filter qualifies (inspected rels))")
    case False
    with Inr p show ?thesis
      by (auto simp: fetch_releases_def Let_def scan_releases_inspected)
  next
    case True
    then obtain a xs where 1: "filter qualifies (inspected rels) = a # xs"
      by (cases "filter qualifies (inspected rels)") auto
    with True obtain b rest where 2: "xs = b # rest" by (cases xs) auto
    have "a \<in> set (filter qualifies (inspected rels))"
      and "b \<in> set (filter qualifies (inspected rels))"
      unfolding 1 2 by simp_all
    then have ab: "a \<in> set (inspected rels) \<and> qualifies a \<and> b \<in> set (inspected rels) \<and> qualifies b"
      by simp
    have "fst (fetch_releases h s) = Inr [asset_pair a, asset_pair b]"
      using Inr p True 1 2 by (simp add: fetch_releases_def Let_def scan_releases_inspected)
    with ab have "\<exists>a b. fst (fetch_releases h s) = Inr [asset_pair a, asset_pair b]
                \<and> a \<in> set (inspected rels) \<and> qualifies a
                \<and> b \<in> set (inspected rels) \<and> qualifies b"
      by blast
    with Inr p True show ?thesis by simp
  qed
qed

text \<open>
  Claim C5 as stated fails: the index answers with status 202, which \<open>urlopen\<close> hands
  back as a response, and \<open>fetch_releases\<close> returns the empty list instead of raising.
\<close>

theorem status_202_returns_empty_list:
  "index github_accepted (releases_url start) = Inr (202, [[umu_sum, umu_tar]])
   \<and> fst (fetch_releases github_accepted start) = Inr []"
  by (simp add: fetch_releases_def github_accepted_def accepted_index_def github_def Let_def)

text \<open>
  Claim C6 at a release that lists the archive before the digest file: both assets
  qualify, and the list returned has the archive first, where \<open>fetch_proton\<close> takes
  the digest file from.
\<close>

theorem archive_listed_first_is_returned_first:
  "qualifies umu_tar \<and> qualifies umu_sum
   \<and> index github_swapped (releases_url start) = Inr (200, [[umu_tar, umu_sum]])
   \<and> fst (fetch_releases github_swapped start)
       = Inr [(''UMU-Proton-9.0.tar.gz'', ''https://github.com/umu/UMU-Proton-9.0.tar.gz''),
              (''UMU-Proton-9.0.sha512sum'', ''https://github.com/umu/UMU-Proton-9.0.sha512sum'')]"
  by (simp add: fetch_releases_def github_swapped_def swapped_index_def github_def Let_def
      qualifies_def umu_tar_def umu_sum_def endswith_def startswith_def suffix_def)

subsection \<open>The fallback selector\<close>

lemma py_max_Max:
  assumes "xs \<noteq> []"
  shows "py_max xs = Max (set xs)"
proof (cases xs)
  case Nil
  with assms show ?thesis by simp
next
  case (Cons a list)
  then show ?thesis using Max.set_eq_fold [of a list] by simp
qed

text \<open>
  Claim C9. Let \<open>protons\<close> be the names of the store's entries that start with the
  vendor's prefix. When there is one, \<open>get_from_steamcompat\<close> returns \<open>env\<close>, and
  \<open>PROTONPATH\<close> is, in the process environment and in \<open>env\<close>, the path of the entry
  whose name is the greatest in the lexicographic order. When there is none, it returns
  \<open>None\<close> and changes nothing.
\<close>

theorem fallback_selects_maximal_name:
  assumes "protons = {n \<in> set (glob (store s)). startswith n (version s)}"
  shows "(protons \<noteq> {} \<longrightarrow>
            (\<exists>m \<in> protons. (\<forall>n \<in> protons. n \<le> m)
               \<and> fst (get_from_steamcompat h s)
               \<and> environ (snd (get_from_steamcompat h s)) ''PROTONPATH''
                   = Some (joinpath (STEAM_COMPAT h) m)
               \<and> env (snd (get_from_steamcompat h s)) ''PROTONPATH''
                   = Some (joinpath (STEAM_COMPAT h) m)))
       \<and> (protons = {} \<longrightarrow> get_from_steamcompat h s = (False, s))"
proof -
  let ?ps = "filter (\<lambda>n. startswith n (version s)) (glob (store s))"
  have set_ps: "set ?ps = protons" using assms by auto
  show ?thesis
  proof (cases "?ps = []")
    case True
    then have "protons = {}" using set_ps by (metis set_empty)
    with True show ?thesis by (simp add: get_from_steamcompat_def)
  next
    case False
    then have ne: "protons \<noteq> {}" using set_ps by (metis set_empty)
    have fin: "finite protons" using set_ps by (metis List.finite_set)
    have m: "py_max ?ps = Max protons" using False set_ps by (simp add: py_max_Max)
    have "Max protons \<in> protons" using fin ne by (rule Max_in)
    moreover have "\<forall>n \<in> protons. n \<le> Max protons" using fin by simp
    ultimately show ?thesis using False ne m
      by (auto simp: get_from_steamcompat_def set_protonpath_def Let_def)
  qed
qed

text \<open>
  The store of the example: of the builds 7.0, 9.0 and 8.1 the selection is 9.0; in an
  empty store there is none.
\<close>

theorem fallback_selects_maximal_name_witness:
  "{n \<in> set (glob (store three_builds)). startswith n (version three_builds)} \<noteq> {}
   \<and> {n \<in> set (glob (store start_empty)). startswith n (version start_empty)} = {}
   \<and> (\<exists>m \<in> {n \<in> set (glob (store three_builds)). startswith n (version three_builds)}.
         (\<forall>n \<in> {n \<in> set (glob (store three_builds)). startswith n (version three_builds)}. n \<le> m)
         \<and> env (snd (get_from_steamcompat github three_builds)) ''PROTONPATH''
             = Some (joinpath (STEAM_COMPAT github) m))
   \<and> env (snd (get_from_steamcompat github three_builds)) ''PROTONPATH''
       = Some ''/home/u/.local/share/Steam/compatibilitytools.d/UMU-Proton-9.0''
   \<and> get_from_steamcompat github start_empty = (False, start_empty)"
proof -
  have ne: "{n \<in> set (glob (store three_builds)). startswith n (version three_builds)} \<noteq> {}"
  proof -
    have "''UMU-Proton-7.0''
            \<in> {n \<in> set (glob (store three_builds)). startswith n (version three_builds)}"
      by (simp add: three_builds_def glob_def version_def startswith_def)
    then show ?thesis by blast
  qed
  have em: "{n \<in> set (glob (store start_empty)). startswith n (version start_empty)} = {}"
    by (simp add: start_empty_def glob_def)
  have val: "env (snd (get_from_steamcompat github three_builds)) ''PROTONPATH''
       = Some ''/home/u/.local/share/Steam/compatibilitytools.d/UMU-Proton-9.0''"
    by (simp add: get_from_steamcompat_def three_builds_def glob_def version_def startswith_def
        set_protonpath_def joinpath_def github_def)
  from fallback_selects_maximal_name [OF refl, of three_builds github]
       fallback_selects_maximal_name [OF refl, of start_empty github] ne em val
  show ?thesis by blast
qed

subsection \<open>Runs\<close>

text \<open>What each function does on the path where nothing fails.\<close>

lemma is_dir_numeral:
  "is_dir_fuel (numeral k) st n =
     (case map_of st n of
        None \<Rightarrow> False
      | Some File \<Rightarrow> False
      | Some (Dir c) \<Rightarrow> True
      | Some (Link t) \<Rightarrow> is_dir_fuel (pred_numeral k) st t)"
  by (simp add: numeral_eq_Suc)

lemma download_run:
  assumes "urlopen h url = Inr r" and "status r = 200" and "read_error r = None"
  shows "download h proton url digest s =
     (case check_digest h (body r) digest of
        Inl e \<Rightarrow>
          (Inl e, s\<lparr>staging := AList.update proton (open_append proton (staging s) @ body r) (staging s),
                     trace := trace s @ [Request url]\<rparr>)
      | Inr x \<Rightarrow>
          (Inr (), s\<lparr>staging := AList.update proton (open_append proton (staging s) @ body r) (staging s),
                     trace := trace s @ [Request url, Verified proton]\<rparr>))"
  using assms
  by (simp add: download_def Let_def read_body_def read_loop_chunks log_def split: sum.splits)

lemma fetch_archive_python:
  assumes "\<not> truthy (environ s ''UMU_ZENITY'')"
  shows "fetch_archive h proton url digest s = download h proton url digest s"
proof -
  from assms have "environ s ''UMU_ZENITY'' \<noteq> Some ''1''" by auto
  with assms show ?thesis by (simp add: fetch_archive_def)
qed

lemma fetch_archive_helper:
  assumes "environ s ''UMU_ZENITY'' = Some ''1''" and "run_zenity h url = (0, written)"
  shows "fetch_archive h proton url digest s =
     (Inr (), s\<lparr>staging := fold (\<lambda>(n, b). AList.update n b) written (staging s),
                trace := trace s @ [Helper url]\<rparr>)"
  using assms by (simp add: fetch_archive_def log_def)

lemma fetch_proton_run:
  assumes "files = (hash, hash_url) # (proton, proton_url) # rest"
    and "startswith proton_url ''https:''" and "startswith hash_url ''https:''"
    and "urlopen h hash_url = Inr r" and "status r = 200" and "read_error r = None"
    and "utf8_valid (body r)"
  shows "fetch_proton h files s =
     fetch_archive h proton proton_url (parse_digest proton (body r)) (log (Request hash_url) s)"
  using assms by (simp add: fetch_proton_def)

lemma extract_dir_fresh:
  assumes "map_of (staging s) file = Some data" and "tar_members h data = Inr [(p, Dir c)]"
    and "map_of (store s) p = None"
  shows "extract_dir h file s =
     (None, s\<lparr>store := AList.update p (Dir c) (store s), trace := trace s @ [Extracting file]\<rparr>)"
  using assms by (simp add: extract_dir_def extract_member_def log_def)

lemma attempt_update:
  assumes "files = f0 # (tarball, u) # rest" and "proton_dir tarball \<noteq> []"
    and "\<not> is_dir (store s) (proton_dir tarball)"
    and "fetch_proton h files s = (Inr (), s1)"
    and "finalize h (version s) tarball (proton_dir tarball) s1 = (None, s2)"
  shows "attempt h files s =
     (Inr (), (set_protonpath (joinpath (STEAM_COMPAT h) (proton_dir tarball)) s2)
                \<lparr>staging := AList.delete tarball (staging s2)\<rparr>)"
  using assms by (simp add: attempt_def Let_def set_protonpath_def)


lemma get_latest_ok:
  assumes "files \<noteq> []" and "attempt h files s = (Inr (), s')"
  shows "get_latest h files s = (Inr True, s')"
  using assms by (simp add: get_latest_def)

lemma get_umu_proton_ok:
  assumes "query_releases h s = (Inr files, s1)" and "get_latest h files s1 = (Inr True, s2)"
  shows "get_umu_proton h s = (Inr (), s2)"
  using assms by (simp add: get_umu_proton_def)

lemma query_releases_run:
  "query_releases h s =
     (case index h (releases_url s) of
        Inl e \<Rightarrow>
          if is_URLError e
          then (Inr [], s\<lparr>staging := [], trace := trace s @ [Request (releases_url s)]\<rparr>)
          else (Inl e, s\<lparr>staging := [], trace := trace s @ [Request (releases_url s)]\<rparr>)
      | Inr (st, rels) \<Rightarrow>
          if st < 200 \<or> 300 \<le> st \<or> st \<noteq> 200
          then (Inr [], s\<lparr>staging := [], trace := trace s @ [Request (releases_url s)]\<rparr>)
          else if length (scan_releases rels) \<noteq> 2
          then (Inl RuntimeError, s\<lparr>staging := [], trace := trace s @ [Request (releases_url s)]\<rparr>)
          else (Inr (scan_releases rels),
                s\<lparr>staging := [], trace := trace s @ [Request (releases_url s)]\<rparr>))"
  by (simp add: query_releases_def fetch_releases_def releases_url_def log_def Let_def
      split: sum.splits prod.splits)

subsection \<open>The example host\<close>

lemma proton_dir_umu: "proton_dir ''UMU-Proton-9.0.tar.gz'' = ''UMU-Proton-9.0''"
  by (simp add: proton_dir_def str_find_def slice_to_def)

lemma proton_dir_ge: "proton_dir ''GE-Proton9-1.tar.gz'' = ''GE-Proton9-1''"
  by (simp add: proton_dir_def str_find_def slice_to_def)

lemma scan_umu: "scan_releases [[], [release_notes, umu_sum, umu_tar]] = umu_files"
  by (simp add: umu_files_def qualifies_def release_notes_def umu_sum_def umu_tar_def
      endswith_def startswith_def suffix_def)

lemma scan_ge: "scan_releases [[ge_sum, ge_tar]] = ge_files"
  by (simp add: ge_files_def qualifies_def ge_sum_def ge_tar_def
      endswith_def startswith_def suffix_def)

lemma github_query:
  "query_releases github s =
     (Inr (if environ s ''PROTONPATH'' = Some ''GE-Proton'' then ge_files else umu_files),
      s\<lparr>staging := [], trace := trace s @ [Request (releases_url s)]\<rparr>)"
proof (cases "environ s ''PROTONPATH'' = Some ''GE-Proton''")
  case True
  then have "index github (releases_url s) = Inr (200, [[ge_sum, ge_tar]])"
    by (simp add: github_def github_index_def releases_url_def)
  with True show ?thesis
    by (simp add: query_releases_run scan_ge del: scan_releases.simps) (simp add: ge_files_def)
next
  case False
  then have "index github (releases_url s) = Inr (200, [[], [release_notes, umu_sum, umu_tar]])"
    by (simp add: github_def github_index_def releases_url_def)
  with False show ?thesis
    by (simp add: query_releases_run scan_umu del: scan_releases.simps) (simp add: umu_files_def)
qed

lemma digest_umu:
  "parse_digest ''UMU-Proton-9.0.tar.gz''
     (sha512_table ''umu'' @ ''  UMU-Proton-9.0.tar.gz'' @ [CHR 0x0A]) = sha512_table ''umu''"
  by (simp add: parse_digest_def splitlines_def linebreak_def endswith_def suffix_def
      first_token_def sha512_table_def)

lemma digest_ge:
  "parse_digest ''GE-Proton9-1.tar.gz''
     (sha512_table ''ge'' @ ''  GE-Proton9-1.tar.gz'' @ [CHR 0x0A]) = sha512_table ''ge''"
  by (simp add: parse_digest_def splitlines_def linebreak_def endswith_def suffix_def
      first_token_def sha512_table_def)

lemma utf8_ascii:
  "\<forall>c \<in> set bs. (of_char c :: nat) < 128 \<Longrightarrow> utf8_from 0 lo hi bs"
  by (induction bs arbitrary: lo hi) simp_all

lemma utf8_umu:
  "utf8_valid (sha512_table ''umu'' @ ''  UMU-Proton-9.0.tar.gz'' @ [CHR 0x0A])"
  unfolding utf8_valid_def by (rule utf8_ascii) (simp add: sha512_table_def)

lemma utf8_ge:
  "utf8_valid (sha512_table ''ge'' @ ''  GE-Proton9-1.tar.gz'' @ [CHR 0x0A])"
  unfolding utf8_valid_def by (rule utf8_ascii) (simp add: sha512_table_def)

lemma github_fetch_umu:
  assumes "\<not> truthy (environ s ''UMU_ZENITY'')"
  shows "fetch_proton github umu_files s =
     (Inr (), s\<lparr>staging := AList.update ''UMU-Proton-9.0.tar.gz''
                   (open_append ''UMU-Proton-9.0.tar.gz'' (staging s) @ ''umu'') (staging s),
                trace := trace s @ [Request ''https://github.com/umu/UMU-Proton-9.0.sha512sum'',
                                    Request ''https://github.com/umu/UMU-Proton-9.0.tar.gz'',
                                    Verified ''UMU-Proton-9.0.tar.gz'']\<rparr>)"
proof -
  have u1: "urlopen github ''https://github.com/umu/UMU-Proton-9.0.sha512sum''
      = Inr \<lparr>status = 200, body = sha512_table ''umu'' @ ''  UMU-Proton-9.0.tar.gz'' @ [CHR 0x0A],
             read_error = None\<rparr>"
    by (simp add: urlopen_def github_def github_urlopen_def)
  have u2: "urlopen github ''https://github.com/umu/UMU-Proton-9.0.tar.gz''
      = Inr \<lparr>status = 200, body = ''umu'', read_error = None\<rparr>"
    by (simp add: urlopen_def github_def github_urlopen_def)
  have z: "\<not> truthy (environ (log (Request ''https://github.com/umu/UMU-Proton-9.0.sha512sum'') s) ''UMU_ZENITY'')"
    using assms by (simp add: log_def)
  have c: "check_digest github ''umu'' (sha512_table ''umu'') = Inr ()"
    by (simp add: check_digest_def github_def)
  have v: "utf8_valid (body \<lparr>status = 200, body = sha512_table ''umu'' @ ''  UMU-Proton-9.0.tar.gz'' @ [CHR 0x0A],
             read_error = None\<rparr>)"
    by (simp only: response.select_convs utf8_umu)
  have "fetch_proton github umu_files s =
     fetch_archive github ''UMU-Proton-9.0.tar.gz'' ''https://github.com/umu/UMU-Proton-9.0.tar.gz''
       (parse_digest ''UMU-Proton-9.0.tar.gz'' (body \<lparr>status = 200, body = sha512_table ''umu'' @ ''  UMU-Proton-9.0.tar.gz'' @ [CHR 0x0A],
             read_error = None\<rparr>)) (log (Request ''https://github.com/umu/UMU-Proton-9.0.sha512sum'') s)"
    by (rule fetch_proton_run [OF _ _ _ u1 _ _ v]) (simp_all add: umu_files_def startswith_def)
  also have "\<dots> = download github ''UMU-Proton-9.0.tar.gz'' ''https://github.com/umu/UMU-Proton-9.0.tar.gz''
       (sha512_table ''umu'') (log (Request ''https://github.com/umu/UMU-Proton-9.0.sha512sum'') s)"
    by (simp only: fetch_archive_python [OF z] response.select_convs digest_umu)
  also have "\<dots> = (Inr (), s\<lparr>staging := AList.update ''UMU-Proton-9.0.tar.gz''
                   (open_append ''UMU-Proton-9.0.tar.gz'' (staging s) @ ''umu'') (staging s),
                trace := trace s @ [Request ''https://github.com/umu/UMU-Proton-9.0.sha512sum'',
                                    Request ''https://github.com/umu/UMU-Proton-9.0.tar.gz'',
                                    Verified ''UMU-Proton-9.0.tar.gz'']\<rparr>)"
    by (simp add: download_run [OF u2] c log_def)
  finally show ?thesis .
qed

lemma github_fetch_ge:
  assumes "\<not> truthy (environ s ''UMU_ZENITY'')"
  shows "fetch_proton github ge_files s =
     (Inr (), s\<lparr>staging := AList.update ''GE-Proton9-1.tar.gz''
                   (open_append ''GE-Proton9-1.tar.gz'' (staging s) @ ''ge'') (staging s),
                trace := trace s @ [Request ''https://github.com/ge/GE-Proton9-1.sha512sum'',
                                    Request ''https://github.com/ge/GE-Proton9-1.tar.gz'',
                                    Verified ''GE-Proton9-1.tar.gz'']\<rparr>)"
proof -
  have u1: "urlopen github ''https://github.com/ge/GE-Proton9-1.sha512sum''
      = Inr \<lparr>status = 200, body = sha512_table ''ge'' @ ''  GE-Proton9-1.tar.gz'' @ [CHR 0x0A],
             read_error = None\<rparr>"
    by (simp add: urlopen_def github_def github_urlopen_def)
  have u2: "urlopen github ''https://github.com/ge/GE-Proton9-1.tar.gz''
      = Inr \<lparr>status = 200, body = ''ge'', read_error = None\<rparr>"
    by (simp add: urlopen_def github_def github_urlopen_def)
  have z: "\<not> truthy (environ (log (Request ''https://github.com/ge/GE-Proton9-1.sha512sum'') s) ''UMU_ZENITY'')"
    using assms by (simp add: log_def)
  have c: "check_digest github ''ge'' (sha512_table ''ge'') = Inr ()"
    by (simp add: check_digest_def github_def)
  have v: "utf8_valid (body \<lparr>status = 200, body = sha512_table ''ge'' @ ''  GE-Proton9-1.tar.gz'' @ [CHR 0x0A],
             read_error = None\<rparr>)"
    by (simp only: response.select_convs utf8_ge)
  have "fetch_proton github ge_files s =
     fetch_archive github ''GE-Proton9-1.tar.gz'' ''https://github.com/ge/GE-Proton9-1.tar.gz''
       (parse_digest ''GE-Proton9-1.tar.gz'' (body \<lparr>status = 200, body = sha512_table ''ge'' @ ''  GE-Proton9-1.tar.gz'' @ [CHR 0x0A],
             read_error = None\<rparr>)) (log (Request ''https://github.com/ge/GE-Proton9-1.sha512sum'') s)"
    by (rule fetch_proton_run [OF _ _ _ u1 _ _ v]) (simp_all add: ge_files_def startswith_def)
  also have "\<dots> = download github ''GE-Proton9-1.tar.gz'' ''https://github.com/ge/GE-Proton9-1.tar.gz''
       (sha512_table ''ge'') (log (Request ''https://github.com/ge/GE-Proton9-1.sha512sum'') s)"
    by (simp only: fetch_archive_python [OF z] response.select_convs digest_ge)
  also have "\<dots> = (Inr (), s\<lparr>staging := AList.update ''GE-Proton9-1.tar.gz''
                   (open_append ''GE-Proton9-1.tar.gz'' (staging s) @ ''ge'') (staging s),
                trace := trace s @ [Request ''https://github.com/ge/GE-Proton9-1.sha512sum'',
                                    Request ''https://github.com/ge/GE-Proton9-1.tar.gz'',
                                    Verified ''GE-Proton9-1.tar.gz'']\<rparr>)"
    by (simp add: download_run [OF u2] c log_def)
  finally show ?thesis .
qed

lemma github_fetch_helper:
  assumes "environ s ''UMU_ZENITY'' = Some ''1''"
  shows "fetch_proton github umu_files s =
     (Inr (), s\<lparr>staging := AList.update ''UMU-Proton-9.0.tar.gz'' ''tampered'' (staging s),
                trace := trace s @ [Request ''https://github.com/umu/UMU-Proton-9.0.sha512sum'',
                                    Helper ''https://github.com/umu/UMU-Proton-9.0.tar.gz'']\<rparr>)"
proof -
  have u1: "urlopen github ''https://github.com/umu/UMU-Proton-9.0.sha512sum''
      = Inr \<lparr>status = 200, body = sha512_table ''umu'' @ ''  UMU-Proton-9.0.tar.gz'' @ [CHR 0x0A],
             read_error = None\<rparr>"
    by (simp add: urlopen_def github_def github_urlopen_def)
  have z: "environ (log (Request ''https://github.com/umu/UMU-Proton-9.0.sha512sum'') s) ''UMU_ZENITY''
             = Some ''1''"
    using assms by (simp add: log_def)
  have r: "run_zenity github ''https://github.com/umu/UMU-Proton-9.0.tar.gz''
             = (0, [(''UMU-Proton-9.0.tar.gz'', ''tampered'')])"
    by (simp add: github_def github_zenity_def)
  have v: "utf8_valid (body \<lparr>status = 200, body = sha512_table ''umu'' @ ''  UMU-Proton-9.0.tar.gz'' @ [CHR 0x0A],
             read_error = None\<rparr>)"
    by (simp only: response.select_convs utf8_umu)
  have "fetch_proton github umu_files s =
     fetch_archive github ''UMU-Proton-9.0.tar.gz'' ''https://github.com/umu/UMU-Proton-9.0.tar.gz''
       (parse_digest ''UMU-Proton-9.0.tar.gz'' (body \<lparr>status = 200, body = sha512_table ''umu'' @ ''  UMU-Proton-9.0.tar.gz'' @ [CHR 0x0A],
             read_error = None\<rparr>)) (log (Request ''https://github.com/umu/UMU-Proton-9.0.sha512sum'') s)"
    by (rule fetch_proton_run [OF _ _ _ u1 _ _ v]) (simp_all add: umu_files_def startswith_def)
  also have "\<dots> = (Inr (), s\<lparr>staging := AList.update ''UMU-Proton-9.0.tar.gz'' ''tampered'' (staging s),
                trace := trace s @ [Request ''https://github.com/umu/UMU-Proton-9.0.sha512sum'',
                                    Helper ''https://github.com/umu/UMU-Proton-9.0.tar.gz'']\<rparr>)"
    by (simp only: fetch_archive_helper [OF z r]) (simp add: log_def)
  finally show ?thesis .
qed

lemma finalize_umu_start:
  assumes "store s = old_store" and "map_of (staging s) ''UMU-Proton-9.0.tar.gz'' = Some data"
    and "tar_members github data = Inr [(''UMU-Proton-9.0'', Dir c)]"
  shows "finalize github ''UMU-Proton'' ''UMU-Proton-9.0.tar.gz'' ''UMU-Proton-9.0'' s =
     (None, s\<lparr>store := [(''GE-Proton8-1'', Dir ''old ge''), (''UMU-Proton-9.0'', Dir c),
                         (''UMU-Latest'', Link ''UMU-Proton-9.0'')],
               trace := trace s @ [Extracting ''UMU-Proton-9.0.tar.gz'']\<rparr>)"
proof -
  have ex: "extract_dir github ''UMU-Proton-9.0.tar.gz'' s =
     (None, s\<lparr>store := AList.update ''UMU-Proton-9.0'' (Dir c) (store s),
               trace := trace s @ [Extracting ''UMU-Proton-9.0.tar.gz'']\<rparr>)"
    by (rule extract_dir_fresh [OF assms(2) assms(3)]) (simp add: assms(1) old_store_def)
  have up: "update_proton ''UMU-Proton-9.0'' [''UMU-Proton-8.0'', ''ULWGL-Proton-7.0'']
              (s\<lparr>store := AList.update ''UMU-Proton-9.0'' (Dir c) (store s),
                 trace := trace s @ [Extracting ''UMU-Proton-9.0.tar.gz'']\<rparr>) =
     (None, s\<lparr>store := [(''GE-Proton8-1'', Dir ''old ge''), (''UMU-Proton-9.0'', Dir c),
                         (''UMU-Latest'', Link ''UMU-Proton-9.0'')],
               trace := trace s @ [Extracting ''UMU-Proton-9.0.tar.gz'']\<rparr>)"
    by (simp add: update_proton_def unlink_def rmtree_def is_dir_def is_dir_numeral
        assms(1) old_store_def)
  have gl: "filter (\<lambda>n. startswith n ''UMU-Proton'' \<or> startswith n ''ULWGL-Proton'') (glob (store s))
      = [''UMU-Proton-8.0'', ''ULWGL-Proton-7.0'']"
    by (simp add: assms(1) old_store_def glob_def startswith_def)
  have fi: "extract_first github" by (simp add: github_def)
  show ?thesis by (simp add: finalize_def gl fi ex up)
qed

lemma unverified_start: "\<not> truthy (environ (start\<lparr>staging := [], trace := t\<rparr>) ''UMU_ZENITY'')"
  by (simp add: start_def)



lemma finalize_other:
  "ver \<noteq> ''UMU-Proton'' \<Longrightarrow> finalize h ver tarball proton s = extract_dir h tarball s"
  by (simp add: finalize_def)

lemma run_ge:
  "get_umu_proton github start_ge =
     (Inr (), \<lparr>environ = [''PROTONPATH'' \<mapsto> ge_path], env = [''PROTONPATH'' \<mapsto> ge_path],
        store = [(''UMU-Proton-8.0'', Dir ''old umu''), (''GE-Proton8-1'', Dir ''old ge''),
                 (''ULWGL-Proton-7.0'', Dir ''old ulwgl''), (''GE-Proton9-1'', Dir ''ge'')],
        staging = [],
        trace = [Request ''https://api.github.com/repos/GloriousEggroll/proton-ge-custom/releases'',
                 Request ''https://github.com/ge/GE-Proton9-1.sha512sum'',
                 Request ''https://github.com/ge/GE-Proton9-1.tar.gz'',
                 Verified ''GE-Proton9-1.tar.gz'',
                 Extracting ''GE-Proton9-1.tar.gz'']\<rparr>)"
proof -
  let ?s0 = "start_ge\<lparr>staging := [],
    trace := [Request ''https://api.github.com/repos/GloriousEggroll/proton-ge-custom/releases'']\<rparr>"
  let ?s1 = "?s0\<lparr>staging := [(''GE-Proton9-1.tar.gz'', ''ge'')],
    trace := [Request ''https://api.github.com/repos/GloriousEggroll/proton-ge-custom/releases'',
              Request ''https://github.com/ge/GE-Proton9-1.sha512sum'',
              Request ''https://github.com/ge/GE-Proton9-1.tar.gz'',
              Verified ''GE-Proton9-1.tar.gz'']\<rparr>"
  have q: "query_releases github start_ge = (Inr ge_files, ?s0)"
    by (simp add: github_query) (simp add: start_ge_def releases_url_def)
  have z: "\<not> truthy (environ ?s0 ''UMU_ZENITY'')" by (simp add: start_ge_def)
  have f: "fetch_proton github ge_files ?s0 = (Inr (), ?s1)"
    by (simp add: github_fetch_ge [OF z] open_append_def)
  have v: "version ?s0 = ''GE-Proton''" by (simp add: version_def start_ge_def)
  have ex: "extract_dir github ''GE-Proton9-1.tar.gz'' ?s1 =
     (None, ?s1\<lparr>store := AList.update ''GE-Proton9-1'' (Dir ''ge'') (store ?s1),
                 trace := trace ?s1 @ [Extracting ''GE-Proton9-1.tar.gz'']\<rparr>)"
    by (rule extract_dir_fresh [where data = "''ge''"])
      (simp_all add: github_def github_tar_def start_ge_def old_store_def)
  have fin: "finalize github (version ?s0) ''GE-Proton9-1.tar.gz''
      (proton_dir ''GE-Proton9-1.tar.gz'') ?s1 =
     (None, ?s1\<lparr>store := AList.update ''GE-Proton9-1'' (Dir ''ge'') (store ?s1),
                 trace := trace ?s1 @ [Extracting ''GE-Proton9-1.tar.gz'']\<rparr>)"
    unfolding v finalize_other [of "''GE-Proton''", simplified] by (rule ex)
  have ne: "proton_dir ''GE-Proton9-1.tar.gz'' \<noteq> []" by (simp add: proton_dir_ge)
  have nd: "\<not> is_dir (store ?s0) (proton_dir ''GE-Proton9-1.tar.gz'')"
    by (simp add: proton_dir_ge is_dir_def is_dir_numeral start_ge_def old_store_def)
  have gf: "ge_files = (''GE-Proton9-1.sha512sum'', ''https://github.com/ge/GE-Proton9-1.sha512sum'')
      # (''GE-Proton9-1.tar.gz'', ''https://github.com/ge/GE-Proton9-1.tar.gz'') # []"
    by (simp add: ge_files_def)
  let ?s3 = "\<lparr>environ = [''PROTONPATH'' \<mapsto> ge_path], env = [''PROTONPATH'' \<mapsto> ge_path],
        store = [(''UMU-Proton-8.0'', Dir ''old umu''), (''GE-Proton8-1'', Dir ''old ge''),
                 (''ULWGL-Proton-7.0'', Dir ''old ulwgl''), (''GE-Proton9-1'', Dir ''ge'')],
        staging = [],
        trace = [Request ''https://api.github.com/repos/GloriousEggroll/proton-ge-custom/releases'',
                 Request ''https://github.com/ge/GE-Proton9-1.sha512sum'',
                 Request ''https://github.com/ge/GE-Proton9-1.tar.gz'',
                 Verified ''GE-Proton9-1.tar.gz'',
                 Extracting ''GE-Proton9-1.tar.gz'']\<rparr>"
  have a: "attempt github ge_files ?s0 = (Inr (), ?s3)"
    unfolding attempt_update [OF gf ne nd f fin]
    by (simp add: set_protonpath_def joinpath_def proton_dir_ge ge_path_def
        github_def start_ge_def old_store_def)
  have "get_latest github ge_files ?s0 = (Inr True, ?s3)"
    by (rule get_latest_ok [OF _ a]) (simp add: ge_files_def)
  from get_umu_proton_ok [OF q this] show ?thesis .
qed

lemma run_helper:
  "get_umu_proton github start_zenity =
     (Inr (), \<lparr>environ = [''UMU_ZENITY'' \<mapsto> ''1'', ''PROTONPATH'' \<mapsto> umu_path],
        env = [''PROTONPATH'' \<mapsto> umu_path],
        store = [(''GE-Proton8-1'', Dir ''old ge''), (''UMU-Proton-9.0'', Dir ''tampered''),
                 (''UMU-Latest'', Link ''UMU-Proton-9.0'')],
        staging = [],
        trace = [Request ''https://api.github.com/repos/Open-Wine-Components/umu-proton/releases'',
                 Request ''https://github.com/umu/UMU-Proton-9.0.sha512sum'',
                 Helper ''https://github.com/umu/UMU-Proton-9.0.tar.gz'',
                 Extracting ''UMU-Proton-9.0.tar.gz'']\<rparr>)"
proof -
  let ?s0 = "start_zenity\<lparr>staging := [],
    trace := [Request ''https://api.github.com/repos/Open-Wine-Components/umu-proton/releases'']\<rparr>"
  let ?s1 = "?s0\<lparr>staging := [(''UMU-Proton-9.0.tar.gz'', ''tampered'')],
    trace := [Request ''https://api.github.com/repos/Open-Wine-Components/umu-proton/releases'',
              Request ''https://github.com/umu/UMU-Proton-9.0.sha512sum'',
              Helper ''https://github.com/umu/UMU-Proton-9.0.tar.gz'']\<rparr>"
  have q: "query_releases github start_zenity = (Inr umu_files, ?s0)"
    by (simp add: github_query) (simp add: start_zenity_def releases_url_def)
  have z: "environ ?s0 ''UMU_ZENITY'' = Some ''1''" by (simp add: start_zenity_def)
  have f: "fetch_proton github umu_files ?s0 = (Inr (), ?s1)"
    by (simp add: github_fetch_helper [OF z])
  have v: "version ?s0 = ''UMU-Proton''" by (simp add: version_def start_zenity_def)
  have fin: "finalize github (version ?s0) ''UMU-Proton-9.0.tar.gz''
      (proton_dir ''UMU-Proton-9.0.tar.gz'') ?s1 =
     (None, ?s1\<lparr>store := [(''GE-Proton8-1'', Dir ''old ge''), (''UMU-Proton-9.0'', Dir ''tampered''),
                         (''UMU-Latest'', Link ''UMU-Proton-9.0'')],
               trace := trace ?s1 @ [Extracting ''UMU-Proton-9.0.tar.gz'']\<rparr>)"
    unfolding v proton_dir_umu
    by (rule finalize_umu_start [where data = "''tampered''"])
      (simp_all add: start_zenity_def github_def github_tar_def)
  have ne: "proton_dir ''UMU-Proton-9.0.tar.gz'' \<noteq> []" by (simp add: proton_dir_umu)
  have nd: "\<not> is_dir (store ?s0) (proton_dir ''UMU-Proton-9.0.tar.gz'')"
    by (simp add: proton_dir_umu is_dir_def is_dir_numeral start_zenity_def old_store_def)
  have uf: "umu_files = (''UMU-Proton-9.0.sha512sum'', ''https://github.com/umu/UMU-Proton-9.0.sha512sum'')
      # (''UMU-Proton-9.0.tar.gz'', ''https://github.com/umu/UMU-Proton-9.0.tar.gz'') # []"
    by (simp add: umu_files_def)
  let ?s3 = "\<lparr>environ = [''UMU_ZENITY'' \<mapsto> ''1'', ''PROTONPATH'' \<mapsto> umu_path],
        env = [''PROTONPATH'' \<mapsto> umu_path],
        store = [(''GE-Proton8-1'', Dir ''old ge''), (''UMU-Proton-9.0'', Dir ''tampered''),
                 (''UMU-Latest'', Link ''UMU-Proton-9.0'')],
        staging = [],
        trace = [Request ''https://api.github.com/repos/Open-Wine-Components/umu-proton/releases'',
                 Request ''https://github.com/umu/UMU-Proton-9.0.sha512sum'',
                 Helper ''https://github.com/umu/UMU-Proton-9.0.tar.gz'',
                 Extracting ''UMU-Proton-9.0.tar.gz'']\<rparr>"
  have a: "attempt github umu_files ?s0 = (Inr (), ?s3)"
    unfolding attempt_update [OF uf ne nd f fin]
    by (simp add: set_protonpath_def joinpath_def proton_dir_umu umu_path_def
        github_def start_zenity_def)
  have "get_latest github umu_files ?s0 = (Inr True, ?s3)"
    by (rule get_latest_ok [OF _ a]) (simp add: umu_files_def)
  from get_umu_proton_ok [OF q this] show ?thesis .
qed


subsection \<open>Verification before extraction\<close>

text \<open>
  Claim C1 at a run with the helper: \<open>UMU_ZENITY\<close> is \<open>1\<close>, the helper exits with
  status 0 and leaves an archive whose digest is not the one of the digest file, so
  that the comparison of the download from Python would raise. The update succeeds:
  the archive is extracted and its directory is in the store, and no verification is
  among the events, which are the query of the index, the request of the digest file,
  the helper and the extraction.
\<close>

theorem helper_archive_is_extracted_unverified:
  "environ start_zenity ''UMU_ZENITY'' = Some ''1''
   \<and> run_zenity github ''https://github.com/umu/UMU-Proton-9.0.tar.gz''
       = (0, [(''UMU-Proton-9.0.tar.gz'', ''tampered'')])
   \<and> check_digest github ''tampered''
         (parse_digest ''UMU-Proton-9.0.tar.gz''
            (sha512_table ''umu'' @ ''  UMU-Proton-9.0.tar.gz'' @ [CHR 0x0A]))
       = Inl ValueError_digest
   \<and> fst (get_umu_proton github start_zenity) = Inr ()
   \<and> trace (snd (get_umu_proton github start_zenity))
       = [Request ''https://api.github.com/repos/Open-Wine-Components/umu-proton/releases'',
          Request ''https://github.com/umu/UMU-Proton-9.0.sha512sum'',
          Helper ''https://github.com/umu/UMU-Proton-9.0.tar.gz'',
          Extracting ''UMU-Proton-9.0.tar.gz'']
   \<and> map_of (store (snd (get_umu_proton github start_zenity))) ''UMU-Proton-9.0''
       = Some (Dir ''tampered'')"
proof -
  have a: "environ start_zenity ''UMU_ZENITY'' = Some ''1''" by (simp add: start_zenity_def)
  have b: "run_zenity github ''https://github.com/umu/UMU-Proton-9.0.tar.gz''
       = (0, [(''UMU-Proton-9.0.tar.gz'', ''tampered'')])"
    by (simp add: github_def github_zenity_def)
  have c: "check_digest github ''tampered''
         (parse_digest ''UMU-Proton-9.0.tar.gz''
            (sha512_table ''umu'' @ ''  UMU-Proton-9.0.tar.gz'' @ [CHR 0x0A]))
       = Inl ValueError_digest"
    unfolding digest_umu by (simp add: check_digest_def github_def sha512_table_def)
  show ?thesis unfolding run_helper using a b c by simp
qed

subsection \<open>The comparison of the digests\<close>

text \<open>
  Claim C4, as the code has it. When the archive is served with status 200 and read to
  its end, the download from Python succeeds exactly when the expected digest is, as a
  string, the hexadecimal SHA-512 digest of the whole body, and raises the digest
  mismatch for every other string. Nothing is normalised before the comparison.
\<close>

theorem digest_compared_exactly:
  assumes "urlopen h url = Inr resp" and "status resp = 200" and "read_error resp = None"
  shows "fst (download h proton url digest s)
           = (if digest = sha512_hexdigest h (body resp) then Inr () else Inl ValueError_digest)"
  using assms
  by (simp add: download_def Let_def read_body_def read_loop_chunks check_digest_def)

text \<open>The archive of the example, with its own digest and with the digest of another payload.\<close>

theorem digest_compared_exactly_witness:
  "urlopen github ''https://github.com/umu/UMU-Proton-9.0.tar.gz''
     = Inr \<lparr>status = 200, body = ''umu'', read_error = None\<rparr>
   \<and> fst (download github ''UMU-Proton-9.0.tar.gz'' ''https://github.com/umu/UMU-Proton-9.0.tar.gz''
            (sha512_table ''umu'') start) = Inr ()
   \<and> fst (download github ''UMU-Proton-9.0.tar.gz'' ''https://github.com/umu/UMU-Proton-9.0.tar.gz''
            (sha512_table ''ge'') start) = Inl ValueError_digest"
proof -
  have u: "urlopen github ''https://github.com/umu/UMU-Proton-9.0.tar.gz''
     = Inr \<lparr>status = 200, body = ''umu'', read_error = None\<rparr>"
    by (simp add: urlopen_def github_def github_urlopen_def)
  have ne: "sha512_table ''ge'' \<noteq> sha512_table ''umu''"
    by (simp add: sha512_table_def)
  from digest_compared_exactly [OF u, of "''UMU-Proton-9.0.tar.gz''" "sha512_table ''umu''" start]
       digest_compared_exactly [OF u, of "''UMU-Proton-9.0.tar.gz''" "sha512_table ''ge''" start]
       u ne
  show ?thesis by (simp add: github_def)
qed

text \<open>
  Claim C4 as stated fails: the expected digest is the digest of the archive written in
  upper case, equal to it after case folding, and the download raises the digest
  mismatch.
\<close>

theorem uppercase_digest_rejected:
  "lowercase ''350E7BD9DEFC8DE58B5A065CBC0ABD5352BFB89C2919D35AB9DA018955804A04C25E0FFEF6215F678F7EB9A7CAFD1C7C27772D2AF81ACD078E5DC6D78E1E8682''
     = sha512_hexdigest github ''umu''
   \<and> urlopen github ''https://github.com/umu/UMU-Proton-9.0.tar.gz''
       = Inr \<lparr>status = 200, body = ''umu'', read_error = None\<rparr>
   \<and> fst (download github ''UMU-Proton-9.0.tar.gz'' ''https://github.com/umu/UMU-Proton-9.0.tar.gz''
        ''350E7BD9DEFC8DE58B5A065CBC0ABD5352BFB89C2919D35AB9DA018955804A04C25E0FFEF6215F678F7EB9A7CAFD1C7C27772D2AF81ACD078E5DC6D78E1E8682''
        start) = Inl ValueError_digest"
proof -
  have a: "lowercase ''350E7BD9DEFC8DE58B5A065CBC0ABD5352BFB89C2919D35AB9DA018955804A04C25E0FFEF6215F678F7EB9A7CAFD1C7C27772D2AF81ACD078E5DC6D78E1E8682''
     = sha512_hexdigest github ''umu''"
    by (simp add: github_def sha512_table_def lowercase_def char_of_def bit_Suc_0_iff)
  have b: "urlopen github ''https://github.com/umu/UMU-Proton-9.0.tar.gz''
       = Inr \<lparr>status = 200, body = ''umu'', read_error = None\<rparr>"
    by (simp add: urlopen_def github_def github_urlopen_def)
  have d: "check_digest github ''umu''
        ''350E7BD9DEFC8DE58B5A065CBC0ABD5352BFB89C2919D35AB9DA018955804A04C25E0FFEF6215F678F7EB9A7CAFD1C7C27772D2AF81ACD078E5DC6D78E1E8682''
        = Inl ValueError_digest"
    by (simp add: check_digest_def github_def sha512_table_def)
  have c: "fst (download github ''UMU-Proton-9.0.tar.gz'' ''https://github.com/umu/UMU-Proton-9.0.tar.gz''
        ''350E7BD9DEFC8DE58B5A065CBC0ABD5352BFB89C2919D35AB9DA018955804A04C25E0FFEF6215F678F7EB9A7CAFD1C7C27772D2AF81ACD078E5DC6D78E1E8682''
        start) = Inl ValueError_digest"
    unfolding download_run [OF b, simplified] d by simp
  from a b c show ?thesis by blast
qed

subsection \<open>The handlers of get\_latest\<close>








subsection \<open>What the steps leave unchanged\<close>

lemma download_frame:
  "store (snd (download h p u d s)) = store s"
  "environ (snd (download h p u d s)) = environ s"
  "env (snd (download h p u d s)) = env s"
  by (simp_all add: download_def Let_def log_def case_prod_beta split: sum.splits option.splits)

lemma fetch_archive_frame:
  "store (snd (fetch_archive h p u d s)) = store s"
  "environ (snd (fetch_archive h p u d s)) = environ s"
  "env (snd (fetch_archive h p u d s)) = env s"
  by (simp_all add: fetch_archive_def Let_def log_def download_frame)

lemma fetch_proton_frame:
  "store (snd (fetch_proton h files s)) = store s"
  "environ (snd (fetch_proton h files s)) = environ s"
  "env (snd (fetch_proton h files s)) = env s"
  by (simp_all add: fetch_proton_def Let_def log_def fetch_archive_frame
      split: list.splits prod.splits sum.splits option.splits)

lemma extract_dir_frame:
  "environ (snd (extract_dir h f s)) = environ s"
  "env (snd (extract_dir h f s)) = env s"
  "staging (snd (extract_dir h f s)) = staging s"
  by (simp_all add: extract_dir_def Let_def log_def case_prod_beta
      split: option.splits sum.splits)

lemma update_proton_frame:
  "environ (snd (update_proton p ps s)) = environ s"
  "env (snd (update_proton p ps s)) = env s"
  "staging (snd (update_proton p ps s)) = staging s"
  "trace (snd (update_proton p ps s)) = trace s"
  by (simp_all add: update_proton_def Let_def case_prod_beta split: sum.splits)

lemma finalize_frame:
  "environ (snd (finalize h v t p s)) = environ s"
  "env (snd (finalize h v t p s)) = env s"
  "staging (snd (finalize h v t p s)) = staging s"
  by (simp_all add: finalize_def Let_def case_prod_beta extract_dir_frame update_proton_frame
      split: option.splits)

lemma cleanup_frame:
  "environ (snd (cleanup t p s)) = environ s"
  "env (snd (cleanup t p s)) = env s"
  by (simp_all add: cleanup_def Let_def split: sum.splits)

lemma query_releases_frame:
  "environ (snd (query_releases h s)) = environ s"
  "env (snd (query_releases h s)) = env s"
  "store (snd (query_releases h s)) = store s"
  by (simp_all add: query_releases_run split: sum.splits prod.splits)

text \<open>The body of the \<open>try\<close> statement changes \<open>env\<close> and the environment only at its end.\<close>

lemma attempt_error_frame:
  assumes "attempt h files s = (Inl e, s1)"
  shows "env s1 = env s \<and> environ s1 = environ s"
proof (cases files)
  case Nil
  with assms show ?thesis by (simp add: attempt_def)
next
  case (Cons f0 fs)
  show ?thesis
  proof (cases fs)
    case Nil
    with Cons assms show ?thesis by (simp add: attempt_def)
  next
    case (Cons f1 rest)
    obtain tarball u where f1: "f1 = (tarball, u)" by (cases f1)
    note files = \<open>files = f0 # fs\<close> Cons f1
    obtain r1 s' where fp: "fetch_proton h files s = (r1, s')" by (cases "fetch_proton h files s")
    have fr: "env s' = env s \<and> environ s' = environ s"
      using fetch_proton_frame(2,3) [of h files s] fp by simp
    obtain r2 s'' where fi: "finalize h (version s) tarball (proton_dir tarball) s' = (r2, s'')"
      by (cases "finalize h (version s) tarball (proton_dir tarball) s'")
    have fr2: "env s'' = env s' \<and> environ s'' = environ s'"
      using finalize_frame(1,2) [of h "version s" tarball "proton_dir tarball" s'] fi by simp
    show ?thesis using assms files fp fi fr fr2
      by (auto simp: attempt_def Let_def split: if_splits sum.splits option.splits)
  qed
qed

lemma get_latest_True_attempt:
  "get_latest h files s = (Inr True, s') \<Longrightarrow> attempt h files s = (Inr (), s')"
  by (auto simp: get_latest_def split: if_splits prod.splits sum.splits list.splits option.splits)

lemma attempt_ok_protonpath:
  assumes "attempt h files s = (Inr (), s')"
  shows "\<exists>f0 tarball u rest. files = f0 # (tarball, u) # rest
           \<and> environ s' ''PROTONPATH'' = Some (joinpath (STEAM_COMPAT h) (proton_dir tarball))
           \<and> env s' ''PROTONPATH'' = Some (joinpath (STEAM_COMPAT h) (proton_dir tarball))"
  using assms
  by (auto simp: attempt_def Let_def set_protonpath_def
      split: list.splits prod.splits sum.splits option.splits if_splits)

lemma get_latest_False_frame:
  assumes "get_latest h files s = (Inr False, s')"
  shows "env s' = env s \<and> environ s' = environ s"
proof (cases "files = []")
  case True
  with assms show ?thesis by (simp add: get_latest_def)
next
  case False
  obtain r s1 where a: "attempt h files s = (r, s1)" by (cases "attempt h files s")
  show ?thesis
  proof (cases r)
    case (Inr x)
    with assms False a show ?thesis by (simp add: get_latest_def)
  next
    case (Inl e)
    with a have fr: "env s1 = env s \<and> environ s1 = environ s" by (simp add: attempt_error_frame)
    obtain r2 s2 where c: "cleanup (fst (files ! 1)) (proton_dir (fst (files ! 1))) s1 = (r2, s2)"
      by (cases "cleanup (fst (files ! 1)) (proton_dir (fst (files ! 1))) s1")
    have fr2: "env s2 = env s1 \<and> environ s2 = environ s1"
      using cleanup_frame [of "fst (files ! 1)" "proton_dir (fst (files ! 1))" s1] c by simp
    show ?thesis using assms False a Inl fr c fr2
      by (auto simp: get_latest_def split: if_splits list.splits prod.splits option.splits)
  qed
qed

subsection \<open>The selection that is published\<close>

text \<open>
  Claim C10. Where the query of the index and \<open>get_latest\<close> return, \<open>get_umu_proton\<close>
  returns. When \<open>get_latest\<close> returned \<open>env\<close>, after a download or on the fast path,
  \<open>PROTONPATH\<close> is the path of the build named by the second file, in the process
  environment and in \<open>env\<close>. When it returned \<open>None\<close> and the store has entries of the
  vendor, \<open>PROTONPATH\<close> is in both the path of the greatest of them. When it returned
  \<open>None\<close> and the store has none, \<open>PROTONPATH\<close> is the empty string in the process
  environment, and \<open>env\<close> is as it was given.
\<close>

theorem protonpath_published:
  assumes "query_releases h s = (Inr files, s1)" and "get_latest h files s1 = (Inr b, s2)"
  shows "fst (get_umu_proton h s) = Inr ()
     \<and> (if b then
           environ (snd (get_umu_proton h s)) ''PROTONPATH''
             = Some (joinpath (STEAM_COMPAT h) (proton_dir (fst (files ! 1))))
           \<and> env (snd (get_umu_proton h s)) ''PROTONPATH''
             = Some (joinpath (STEAM_COMPAT h) (proton_dir (fst (files ! 1))))
         else if filter (\<lambda>n. startswith n (version s2)) (glob (store s2)) \<noteq> [] then
           environ (snd (get_umu_proton h s)) ''PROTONPATH''
             = Some (joinpath (STEAM_COMPAT h)
                  (py_max (filter (\<lambda>n. startswith n (version s2)) (glob (store s2)))))
           \<and> env (snd (get_umu_proton h s)) ''PROTONPATH''
             = Some (joinpath (STEAM_COMPAT h)
                  (py_max (filter (\<lambda>n. startswith n (version s2)) (glob (store s2)))))
         else
           environ (snd (get_umu_proton h s)) ''PROTONPATH'' = Some ''''
           \<and> env (snd (get_umu_proton h s)) = env s)"
proof (cases b)
  case True
  with assms(2) have "attempt h files s1 = (Inr (), s2)" by (simp add: get_latest_True_attempt)
  then obtain f0 tarball u rest where "files = f0 # (tarball, u) # rest"
    and "environ s2 ''PROTONPATH'' = Some (joinpath (STEAM_COMPAT h) (proton_dir tarball))"
    and "env s2 ''PROTONPATH'' = Some (joinpath (STEAM_COMPAT h) (proton_dir tarball))"
    using attempt_ok_protonpath by blast
  with True assms show ?thesis by (simp add: get_umu_proton_def)
next
  case False
  with assms(2) have "env s2 = env s1" by (simp add: get_latest_False_frame)
  moreover have "env s1 = env s" using query_releases_frame(2) [of h s] assms(1) by simp
  ultimately have e: "env s2 = env s" by simp
  show ?thesis using False assms e
    by (simp add: get_umu_proton_def get_from_steamcompat_def set_protonpath_def Let_def)
qed

lemma latest_start:
  "get_latest github umu_files
     (start\<lparr>staging := [],
        trace := [Request ''https://api.github.com/repos/Open-Wine-Components/umu-proton/releases'']\<rparr>)
   = (Inr True, installed)"
proof -
  let ?s0 = "start\<lparr>staging := [],
    trace := [Request ''https://api.github.com/repos/Open-Wine-Components/umu-proton/releases'']\<rparr>"
  let ?s1 = "?s0\<lparr>staging := [(''UMU-Proton-9.0.tar.gz'', ''umu'')],
    trace := [Request ''https://api.github.com/repos/Open-Wine-Components/umu-proton/releases'',
              Request ''https://github.com/umu/UMU-Proton-9.0.sha512sum'',
              Request ''https://github.com/umu/UMU-Proton-9.0.tar.gz'',
              Verified ''UMU-Proton-9.0.tar.gz'']\<rparr>"
  have f: "fetch_proton github umu_files ?s0 = (Inr (), ?s1)"
    by (simp add: github_fetch_umu [OF unverified_start] open_append_def)
  have v: "version ?s0 = ''UMU-Proton''" by (simp add: version_def start_def)
  have fin: "finalize github (version ?s0) ''UMU-Proton-9.0.tar.gz''
      (proton_dir ''UMU-Proton-9.0.tar.gz'') ?s1 =
     (None, ?s1\<lparr>store := [(''GE-Proton8-1'', Dir ''old ge''), (''UMU-Proton-9.0'', Dir ''umu''),
                         (''UMU-Latest'', Link ''UMU-Proton-9.0'')],
               trace := trace ?s1 @ [Extracting ''UMU-Proton-9.0.tar.gz'']\<rparr>)"
    unfolding v proton_dir_umu
    by (rule finalize_umu_start [where data = "''umu''"])
      (simp_all add: start_def github_def github_tar_def)
  have ne: "proton_dir ''UMU-Proton-9.0.tar.gz'' \<noteq> []" by (simp add: proton_dir_umu)
  have nd: "\<not> is_dir (store ?s0) (proton_dir ''UMU-Proton-9.0.tar.gz'')"
    by (simp add: proton_dir_umu is_dir_def is_dir_numeral start_def old_store_def)
  have uf: "umu_files = (''UMU-Proton-9.0.sha512sum'', ''https://github.com/umu/UMU-Proton-9.0.sha512sum'')
      # (''UMU-Proton-9.0.tar.gz'', ''https://github.com/umu/UMU-Proton-9.0.tar.gz'') # []"
    by (simp add: umu_files_def)
  have a: "attempt github umu_files ?s0 = (Inr (), installed)"
    unfolding attempt_update [OF uf ne nd f fin]
    by (simp add: installed_def set_protonpath_def joinpath_def proton_dir_umu umu_path_def
        github_def start_def)
  show ?thesis by (rule get_latest_ok [OF _ a]) (simp add: umu_files_def)
qed

lemma query_start:
  "query_releases github start
   = (Inr umu_files, start\<lparr>staging := [],
        trace := [Request ''https://api.github.com/repos/Open-Wine-Components/umu-proton/releases'']\<rparr>)"
  by (simp add: github_query) (simp add: start_def releases_url_def)

lemma query_offline:
  "query_releases offline s
   = (Inr [], s\<lparr>staging := [], trace := trace s @ [Request (releases_url s)]\<rparr>)"
  by (simp add: query_releases_run offline_def unreachable_def)

text \<open>
  The three outcomes: the update of the example; the host without network over the
  store of the example, where the greatest entry of the vendor is \<open>UMU-Proton-8.0\<close>; and
  the host without network over an empty store.
\<close>

theorem protonpath_published_witness:
  "fst (get_umu_proton github start) = Inr ()
   \<and> environ (snd (get_umu_proton github start)) ''PROTONPATH''
       = Some ''/home/u/.local/share/Steam/compatibilitytools.d/UMU-Proton-9.0''
   \<and> env (snd (get_umu_proton github start)) ''PROTONPATH''
       = Some ''/home/u/.local/share/Steam/compatibilitytools.d/UMU-Proton-9.0''
   \<and> fst (get_umu_proton offline start) = Inr ()
   \<and> environ (snd (get_umu_proton offline start)) ''PROTONPATH''
       = Some ''/home/u/.local/share/Steam/compatibilitytools.d/UMU-Proton-8.0''
   \<and> env (snd (get_umu_proton offline start)) ''PROTONPATH''
       = Some ''/home/u/.local/share/Steam/compatibilitytools.d/UMU-Proton-8.0''
   \<and> fst (get_umu_proton offline start_empty) = Inr ()
   \<and> environ (snd (get_umu_proton offline start_empty)) ''PROTONPATH'' = Some ''''
   \<and> env (snd (get_umu_proton offline start_empty)) = env start_empty
   \<and> env start_empty ''PROTONPATH'' = None"
proof -
  have l2: "get_latest offline []
              (start\<lparr>staging := [], trace := trace start @ [Request (releases_url start)]\<rparr>)
            = (Inr False, start\<lparr>staging := [], trace := trace start @ [Request (releases_url start)]\<rparr>)"
    by (simp add: get_latest_def)
  have l3: "get_latest offline []
              (start_empty\<lparr>staging := [], trace := trace start_empty @ [Request (releases_url start_empty)]\<rparr>)
            = (Inr False, start_empty\<lparr>staging := [],
                 trace := trace start_empty @ [Request (releases_url start_empty)]\<rparr>)"
    by (simp add: get_latest_def)
  have a: "fst (get_umu_proton github start) = Inr ()
   \<and> environ (snd (get_umu_proton github start)) ''PROTONPATH''
       = Some ''/home/u/.local/share/Steam/compatibilitytools.d/UMU-Proton-9.0''
   \<and> env (snd (get_umu_proton github start)) ''PROTONPATH''
       = Some ''/home/u/.local/share/Steam/compatibilitytools.d/UMU-Proton-9.0''"
    using protonpath_published [OF query_start latest_start]
    by (simp add: umu_files_def proton_dir_umu joinpath_def github_def)
  have b: "fst (get_umu_proton offline start) = Inr ()
   \<and> environ (snd (get_umu_proton offline start)) ''PROTONPATH''
       = Some ''/home/u/.local/share/Steam/compatibilitytools.d/UMU-Proton-8.0''
   \<and> env (snd (get_umu_proton offline start)) ''PROTONPATH''
       = Some ''/home/u/.local/share/Steam/compatibilitytools.d/UMU-Proton-8.0''"
    using protonpath_published [OF query_offline l2]
    by (simp add: start_def old_store_def glob_def version_def startswith_def joinpath_def
        offline_def github_def)
  have c: "fst (get_umu_proton offline start_empty) = Inr ()
   \<and> environ (snd (get_umu_proton offline start_empty)) ''PROTONPATH'' = Some ''''
   \<and> env (snd (get_umu_proton offline start_empty)) = env start_empty
   \<and> env start_empty ''PROTONPATH'' = None"
    using protonpath_published [OF query_offline l3]
    by (simp add: start_empty_def glob_def)
  from a b c show ?thesis by simp
qed

subsection \<open>The second invocation\<close>








subsection \<open>The store after an update\<close>

lemma is_dir_Dir: "map_of st n = Some (Dir c) \<Longrightarrow> is_dir st n"
  by (simp add: is_dir_def is_dir_numeral)

lemma rmtree_Inr: "rmtree p st = Inr st1 \<Longrightarrow> (\<exists>c. map_of st p = Some (Dir c)) \<and> st1 = AList.delete p st"
  by (auto simp: rmtree_def split: option.splits node.splits)

text \<open>When every removal succeeds, the directories among the listed names are gone and nothing else has changed.\<close>

lemma remove_builds_map:
  "remove_builds ps st = (None, st') \<Longrightarrow>
   map_of st' n = (if n \<in> set ps \<and> (\<exists>c. map_of st n = Some (Dir c)) then None else map_of st n)"
proof (induction ps arbitrary: st)
  case Nil
  then show ?case by simp
next
  case (Cons p ps)
  show ?case
  proof (cases "is_dir st p")
    case True
    show ?thesis
    proof (cases "rmtree p st")
      case (Inl e)
      with True Cons.prems show ?thesis by simp
    next
      case (Inr st1)
      with True Cons.prems have r: "remove_builds ps st1 = (None, st')" by simp
      from Inr have d: "\<exists>c. map_of st p = Some (Dir c)" and st1: "st1 = AList.delete p st"
        using rmtree_Inr by blast+
      have m: "map_of st1 = (map_of st)(p := None)" using st1 by (simp add: delete_conv')
      from Cons.IH [OF r] m d show ?thesis by auto
    qed
  next
    case False
    then have nd: "\<forall>c. map_of st p \<noteq> Some (Dir c)" using is_dir_Dir by blast
    from False Cons.prems have r: "remove_builds ps st = (None, st')" by simp
    from Cons.IH [OF r] nd show ?thesis by auto
  qed
qed

lemma update_proton_map:
  assumes "update_proton proton protons s = (None, s')" and "''UMU-Latest'' \<notin> set protons"
  shows "map_of (store s') n =
           (if n = ''UMU-Latest'' then Some (Link proton)
            else if n \<in> set protons \<and> (\<exists>c. map_of (store s) n = Some (Dir c)) then None
            else map_of (store s) n)"
    and "\<forall>c. map_of (store s) ''UMU-Latest'' \<noteq> Some (Dir c)"
    and "staging s' = staging s"
proof -
  obtain st where u: "unlink ''UMU-Latest'' (store s) = Inr st"
    using assms(1) by (cases "unlink ''UMU-Latest'' (store s)") (simp_all add: update_proton_def)
  then have nd: "\<forall>c. map_of (store s) ''UMU-Latest'' \<noteq> Some (Dir c)"
    and st: "st = AList.delete ''UMU-Latest'' (store s)"
    by (auto simp: unlink_def split: option.splits node.splits)
  obtain r st' where rb: "remove_builds protons (AList.update ''UMU-Latest'' (Link proton) st) = (r, st')"
    by (cases "remove_builds protons (AList.update ''UMU-Latest'' (Link proton) st)")
  with u assms(1) have r: "r = None" and s': "s' = s\<lparr>store := st'\<rparr>"
    by (simp_all add: update_proton_def)
  have m: "map_of (AList.update ''UMU-Latest'' (Link proton) st)
             = (map_of (store s))(''UMU-Latest'' \<mapsto> Link proton)"
    using st by (simp add: update_conv' delete_conv')
  from remove_builds_map [OF rb [unfolded r], of n] m assms(2) s'
  show "map_of (store s') n =
           (if n = ''UMU-Latest'' then Some (Link proton)
            else if n \<in> set protons \<and> (\<exists>c. map_of (store s) n = Some (Dir c)) then None
            else map_of (store s) n)"
    by auto
  show "\<forall>c. map_of (store s) ''UMU-Latest'' \<noteq> Some (Dir c)" by (rule nd)
  show "staging s' = staging s" using s' by simp
qed

text \<open>An extraction makes directories only at the names of its members, and removes none.\<close>

lemma resolve_fuel_end: "resolve_fuel k st n = Some (t, v) \<Longrightarrow> map_of st t = v"
  by (induction k arbitrary: n) (auto split: option.splits node.splits)

lemma extract_member_dirs:
  assumes "extract_member n nd st = Inr st'" and "map_of st' m = Some (Dir c)"
  shows "m = n \<or> map_of st m = Some (Dir c)"
proof (cases nd)
  case File
  with assms(1) obtain t v where "resolve st n = Some (t, v)" and st': "st' = AList.update t File st"
    by (auto simp: extract_member_def split: option.splits node.splits)
  with assms(2) show ?thesis by (auto simp: update_conv' split: if_splits)
next
  case (Dir c0)
  with assms show ?thesis
    by (auto simp: extract_member_def update_conv' split: option.splits node.splits if_splits)
next
  case (Link t)
  with assms show ?thesis
    by (auto simp: extract_member_def update_conv' split: option.splits node.splits if_splits)
qed

lemma extract_member_keeps:
  assumes "extract_member n nd st = Inr st'" and "map_of st m = Some (Dir c)" and "m \<noteq> n"
  shows "map_of st' m = Some (Dir c)"
proof (cases nd)
  case File
  with assms(1) obtain t v where r: "resolve st n = Some (t, v)"
    and nd: "\<forall>c0. v \<noteq> Some (Dir c0)" and st': "st' = AList.update t File st"
    by (auto simp: extract_member_def split: option.splits node.splits)
  from r have "map_of st t = v" unfolding resolve_def by (rule resolve_fuel_end)
  with nd assms(2) have "t \<noteq> m" by auto
  with st' assms(2) show ?thesis by (simp add: update_conv')
next
  case (Dir c0)
  with assms show ?thesis
    by (auto simp: extract_member_def update_conv' split: option.splits node.splits if_splits)
next
  case (Link t)
  with assms show ?thesis
    by (auto simp: extract_member_def update_conv' split: option.splits node.splits if_splits)
qed

lemma extractall_dirs:
  "extractall ms st = (r, st') \<Longrightarrow> map_of st' m = Some (Dir c) \<Longrightarrow>
   m \<in> fst ` set ms \<or> map_of st m = Some (Dir c)"
proof (induction ms arbitrary: st)
  case Nil
  then show ?case by simp
next
  case (Cons a ms)
  obtain n nd where a: "a = (n, nd)" by (cases a)
  show ?case
  proof (cases "extract_member n nd st")
    case (Inl e)
    with Cons.prems a show ?thesis by simp
  next
    case (Inr st1)
    with Cons.prems a have "extractall ms st1 = (r, st')" by simp
    from Cons.IH [OF this Cons.prems(2)] extract_member_dirs [OF Inr] a
    show ?thesis by auto
  qed
qed

lemma extractall_keeps:
  "extractall ms st = (r, st') \<Longrightarrow> map_of st m = Some (Dir c) \<Longrightarrow> m \<notin> fst ` set ms \<Longrightarrow>
   map_of st' m = Some (Dir c)"
proof (induction ms arbitrary: st)
  case Nil
  then show ?case by simp
next
  case (Cons a ms)
  obtain n nd where a: "a = (n, nd)" by (cases a)
  show ?case
  proof (cases "extract_member n nd st")
    case (Inl e)
    with Cons.prems a show ?thesis by simp
  next
    case (Inr st1)
    with Cons.prems a have e: "extractall ms st1 = (r, st')" by simp
    from Cons.prems(3) a have "m \<noteq> n" and "m \<notin> fst ` set ms" by auto
    from Cons.IH [OF e extract_member_keeps [OF Inr Cons.prems(2) \<open>m \<noteq> n\<close>] \<open>m \<notin> fst ` set ms\<close>]
    show ?thesis .
  qed
qed

lemma extract_dir_store:
  assumes "extract_dir h f s = (None, s')"
  shows "\<exists>data ms. map_of (staging s) f = Some data \<and> tar_members h data = Inr ms
           \<and> extractall ms (store s) = (None, store s')"
  using assms
  by (auto simp: extract_dir_def Let_def log_def split: option.splits sum.splits prod.splits)

lemma attempt_update_ok:
  assumes "attempt h files s = (Inr (), s')" and "files = f0 # (tarball, u) # rest"
    and "\<not> is_dir (store s) (proton_dir tarball)"
  shows "\<exists>s1 s2. fetch_proton h files s = (Inr (), s1)
           \<and> finalize h (version s) tarball (proton_dir tarball) s1 = (None, s2)
           \<and> s' = (set_protonpath (joinpath (STEAM_COMPAT h) (proton_dir tarball)) s2)
                    \<lparr>staging := AList.delete tarball (staging s2)\<rparr>"
  using assms
  by (auto simp: attempt_def Let_def set_protonpath_def
      split: if_splits prod.splits sum.splits option.splits)

lemma stable_filter:
  "filter (\<lambda>n. startswith n ''UMU-Proton'' \<or> startswith n ''ULWGL-Proton'') xs = filter stable_name xs"
  by (induction xs) (simp_all add: stable_name_def)

lemma alias_not_stable: "\<not> stable_name ''UMU-Latest''"
  by (simp add: stable_name_def startswith_def)

lemma finalize_umu_ok:
  assumes "finalize h ''UMU-Proton'' t p s = (None, s2)"
  shows "if extract_first h
         then (\<exists>sa. extract_dir h t s = (None, sa)
                 \<and> update_proton p (filter stable_name (glob (store s))) sa = (None, s2))
         else (\<exists>sa. update_proton p (filter stable_name (glob (store s))) s = (None, sa)
                 \<and> extract_dir h t sa = (None, s2))"
  using assms
  by (auto simp: finalize_def Let_def stable_filter split: prod.splits option.splits if_splits)

lemma version_cases: "version s = ''UMU-Proton'' \<or> version s = ''GE-Proton''"
  by (simp add: version_def)

text \<open>
  The directories with a stable name that the update of the UMU-Proton vendor leaves
  are directories of the archive.
\<close>

lemma finalize_umu_dirs:
  assumes fin: "finalize h ''UMU-Proton'' t p s = (None, s2)"
    and data: "map_of (staging s) t = Some data" and ms: "tar_members h data = Inr ms"
    and n: "stable_name n" and d: "map_of (store s2) n = Some (Dir c)"
  shows "n \<in> fst ` set ms"
proof (rule ccontr)
  assume out: "n \<notin> fst ` set ms"
  let ?ps = "filter stable_name (glob (store s))"
  have al: "''UMU-Latest'' \<notin> set ?ps" using alias_not_stable by simp
  have na: "n \<noteq> ''UMU-Latest''" using n alias_not_stable by auto
  show False
  proof (cases "extract_first h")
    case True
    with finalize_umu_ok [OF fin] obtain sa where ex: "extract_dir h t s = (None, sa)"
      and up: "update_proton p ?ps sa = (None, s2)" by auto
    from extract_dir_store [OF ex] data ms
    have ea: "extractall ms (store s) = (None, store sa)" by auto
    have m: "map_of (store s2) n =
               (if n \<in> set ?ps \<and> (\<exists>c. map_of (store sa) n = Some (Dir c)) then None
                else map_of (store sa) n)"
      using update_proton_map(1) [OF up al, of n] na by simp
    with d have dsa: "map_of (store sa) n = Some (Dir c)" by (simp split: if_splits)
    with m d have nps: "n \<notin> set ?ps" by auto
    from extractall_dirs [OF ea dsa] out have "map_of (store s) n = Some (Dir c)" by simp
    then have "n \<in> set (glob (store s))"
      by (metis glob_def map_of_SomeD fst_conv image_eqI set_map)
    with n nps show False by simp
  next
    case False
    with finalize_umu_ok [OF fin] obtain sa where up: "update_proton p ?ps s = (None, sa)"
      and ex: "extract_dir h t sa = (None, s2)" by auto
    have "staging sa = staging s" by (rule update_proton_map(3) [OF up al])
    with extract_dir_store [OF ex] data ms
    have ea: "extractall ms (store sa) = (None, store s2)" by auto
    from extractall_dirs [OF ea d] out have dsa: "map_of (store sa) n = Some (Dir c)" by simp
    have m: "map_of (store sa) n =
               (if n \<in> set ?ps \<and> (\<exists>c. map_of (store s) n = Some (Dir c)) then None
                else map_of (store s) n)"
      using update_proton_map(1) [OF up al, of n] na by simp
    with dsa have ds: "map_of (store s) n = Some (Dir c)" by (simp split: if_splits)
    with m dsa have nps: "n \<notin> set ?ps" by auto
    from ds have "n \<in> set (glob (store s))"
      by (metis glob_def map_of_SomeD fst_conv image_eqI set_map)
    with n nps show False by simp
  qed
qed

text \<open>
  Claim C8. Let \<open>get_latest\<close> return \<open>env\<close> after an update, that is where the build
  was no directory of the store before, and let \<open>ms\<close> be the members of the archive
  that was fetched. For the UMU-Proton vendor every entry of the store that is a
  directory and whose name starts with \<open>UMU-Proton\<close> or \<open>ULWGL-Proton\<close> is then a member
  of the archive: the newly installed build, when the archive holds the directory of
  the build and nothing else. For the GE-Proton vendor every directory of the store
  that is no member of the archive is left as it was. A link is no directory here, so
  the alias is not concerned.
\<close>

theorem builds_after_update:
  assumes "files = f0 # (tarball, u) # rest"
    and "\<not> is_dir (store s) (proton_dir tarball)"
    and "get_latest h files s = (Inr True, s')"
    and "map_of (staging (snd (fetch_proton h files s))) tarball = Some data"
    and "tar_members h data = Inr ms"
  shows "(version s = ''UMU-Proton'' \<longrightarrow>
            (\<forall>n c. stable_name n \<and> map_of (store s') n = Some (Dir c) \<longrightarrow> n \<in> fst ` set ms))
       \<and> (version s = ''GE-Proton'' \<longrightarrow>
            (\<forall>n c. map_of (store s) n = Some (Dir c) \<and> n \<notin> fst ` set ms
                     \<longrightarrow> map_of (store s') n = Some (Dir c)))"
proof -
  from assms(3) have at: "attempt h files s = (Inr (), s')" by (rule get_latest_True_attempt)
  from attempt_update_ok [OF at assms(1,2)] obtain s1 s2
    where fp: "fetch_proton h files s = (Inr (), s1)"
      and fin: "finalize h (version s) tarball (proton_dir tarball) s1 = (None, s2)"
      and s': "s' = (set_protonpath (joinpath (STEAM_COMPAT h) (proton_dir tarball)) s2)
                    \<lparr>staging := AList.delete tarball (staging s2)\<rparr>"
    by blast
  have st1: "store s1 = store s" using fetch_proton_frame(1) [of h files s] fp by simp
  have data1: "map_of (staging s1) tarball = Some data" using assms(4) fp by simp
  have st': "store s' = store s2" using s' by (simp add: set_protonpath_def)
  have umu: "\<forall>n c. stable_name n \<and> map_of (store s') n = Some (Dir c) \<longrightarrow> n \<in> fst ` set ms"
    if v: "version s = ''UMU-Proton''"
    using finalize_umu_dirs [OF fin [unfolded v] data1 assms(5)] st' by auto
  have ge: "\<forall>n c. map_of (store s) n = Some (Dir c) \<and> n \<notin> fst ` set ms
                     \<longrightarrow> map_of (store s') n = Some (Dir c)"
    if v: "version s = ''GE-Proton''"
  proof -
    from fin v have ex: "extract_dir h tarball s1 = (None, s2)" by (simp add: finalize_def)
    from extract_dir_store [OF ex] data1 assms(5)
    have "extractall ms (store s1) = (None, store s2)" by auto
    with st1 st' show ?thesis using extractall_keeps by auto
  qed
  from umu ge show ?thesis by blast
qed

end
